theory Spec2Isabelle
  imports Main "HOL-Library.Word" "HOL-Library.Sublist"
begin

unbundle bit_operations_syntax

section \<open>The tar exporter of exporter/tar/export.go\<close>

text \<open>
  The file embeds \<^verbatim>\<open>localExporterInstance.Export\<close> and its closure
  \<^verbatim>\<open>getDir\<close>. The packages the function calls into (the directory
  construction \<^verbatim>\<open>local.CreateFS\<close>, \<^verbatim>\<open>epoch.ParseSource\<close>,
  \<^verbatim>\<open>json.Unmarshal\<close>, \<^verbatim>\<open>fsutil.SubDirFS\<close>, \<^verbatim>\<open>fsutil.WriteTar\<close>,
  the session manager, the file-sync writer and the progress reporter) are not part of
  the file: they are the fields of a record of collaborators that every definition takes
  as a parameter. A collaborator that performs I/O receives the list of the calls made so
  far, so its answer may differ from one call to the next; each such call is logged with
  its arguments and its answer, and the log is what the theorems speak about.
\<close>

subsection \<open>Data\<close>

text \<open>Go's \<^verbatim>\<open>error\<close>: the four errors the function creates itself, and the
  errors handed back by a collaborator.\<close>

datatype error =
    ErrMissingPlatformsMapping
      \<comment> \<open>"unable to export multiple refs, missing platforms mapping"\<close>
  | ErrParsePlatforms error
      \<comment> \<open>"failed to parse platforms passed to exporter", wrapping the parse error\<close>
  | ErrMultiplePlatformsWithoutMap
      \<comment> \<open>"unable to export multiple platforms without map"\<close>
  | ErrMissingRef string
      \<comment> \<open>"failed to find ref for ID %s"\<close>
  | ErrExternal string
      \<comment> \<open>an error value produced by a collaborator\<close>

text \<open>Opaque handles. A nil interface value is a constructor of its own.\<close>

datatype ImmutableRef = NilRef | RefId nat
datatype Attestation = AttestationId nat
datatype FS = NilFS | FSHandle nat
datatype cleanup = CleanupId nat
datatype Caller = CallerId nat
datatype Writer = WriterId nat

text \<open>A \<^verbatim>\<open>time.Time\<close> is the number of nanoseconds since the Unix epoch;
  \<^verbatim>\<open>UnixNano\<close> converts to \<^verbatim>\<open>int64\<close> and wraps, and
  \<^verbatim>\<open>Truncate(time.Second)\<close> drops the nanoseconds within the second.\<close>

type_synonym time = int

definition UnixNano :: "time \<Rightarrow> 64 word" where
  "UnixNano t = word_of_int t"

definition Truncate_Second :: "time \<Rightarrow> time" where
  "Truncate_Second t = t - t mod 1000000000"

record CreateFSOpts =
  Epoch :: "time option"
  AttestationPrefix :: string
  MultiPlatform :: "bool option"

record localExporterInstance =
  opts :: CreateFSOpts
  preferNonDist :: bool

record Platform =
  ID :: string
  Platform :: string

record Platforms =
  Platforms :: "Platform list"

text \<open>\<^verbatim>\<open>exporter.Source\<close>. A Go map is an association list read with
  \<^const>\<open>map_of\<close>; it has an entry exactly when the list is not empty.\<close>

record Source =
  Ref :: ImmutableRef
  Refs :: "(string \<times> ImmutableRef) list"
  Metadata :: "(string \<times> string) list"
  Attestations :: "(string \<times> Attestation list) list"

text \<open>\<^verbatim>\<open>fstypes.Stat\<close>: the fields the function writes; the others keep
  their zero values.\<close>

record Stat =
  Mode :: "32 word"
  Path :: string
  ModTime :: "64 word"

record Dir =
  FS :: FS
  Stat :: Stat

subsection \<open>Calls to collaborators\<close>

datatype event =
    CallCreateFS string string ImmutableRef "(string \<times> ImmutableRef) list"
      "Attestation list" time CreateFSOpts "FS \<times> cleanup option \<times> error option"
      \<comment> \<open>sessionID, key, ref, all refs, attestations, now, options; the answer\<close>
  | CallCleanup cleanup
  | CallGet string bool "Caller \<times> error option"
  | CallCopyFileWriter Caller "Writer \<times> error option"
  | CallOneOff string
  | CallWriteTar FS Writer "error option"
  | CallClose Writer "error option"
  | CallReport "error option" "error option"
  | CallCancel

record collaborators =
  ExporterPlatformsKey :: string
  Now :: time
  ParseSource :: "Source \<Rightarrow> time option \<times> bool \<times> error option"
  Unmarshal :: "string \<Rightarrow> error + Platforms"
  CreateFS :: "event list \<Rightarrow> string \<Rightarrow> string \<Rightarrow> ImmutableRef \<Rightarrow>
    (string \<times> ImmutableRef) list \<Rightarrow> Attestation list \<Rightarrow> time \<Rightarrow> CreateFSOpts \<Rightarrow>
    FS \<times> cleanup option \<times> error option"
  SubDirFS :: "Dir list \<Rightarrow> error + FS"
  Get :: "event list \<Rightarrow> string \<Rightarrow> bool \<Rightarrow> Caller \<times> error option"
  CopyFileWriter :: "event list \<Rightarrow> Caller \<Rightarrow> Writer \<times> error option"
  WriteTar :: "event list \<Rightarrow> FS \<Rightarrow> Writer \<Rightarrow> error option"
  Close :: "event list \<Rightarrow> Writer \<Rightarrow> error option"
  report :: "event list \<Rightarrow> error option \<Rightarrow> error option"

text \<open>What one run of \<^verbatim>\<open>Export\<close> changes: the receiver \<^verbatim>\<open>*e\<close>,
  the local slice \<^verbatim>\<open>defers\<close>, and the log of calls.\<close>

record run =
  inst :: localExporterInstance
  defers :: "cleanup list"
  trace :: "event list"

definition log :: "event \<Rightarrow> run \<Rightarrow> run" where
  "log ev s = s\<lparr>trace := trace s @ [ev]\<rparr>"

subsection \<open>Lines 103-109: the epoch of the source\<close>

definition sourceEpoch ::
  "collaborators \<Rightarrow> Source \<Rightarrow> localExporterInstance \<Rightarrow> error option \<times> localExporterInstance"
where
  "sourceEpoch c inp e =
     (if Epoch (opts e) = None then
        (case ParseSource c inp of
           (tm, ok, err) \<Rightarrow>
             if err \<noteq> None then (err, e)
             else if ok then (None, e\<lparr>opts := (opts e)\<lparr>Epoch := tm\<rparr>\<rparr>)
             else (None, e))
      else (None, e))"

subsection \<open>Lines 113-134: getDir\<close>

definition sanitize :: "string \<Rightarrow> string" where
  \<comment> \<open>\<^verbatim>\<open>strings.Replace(k, "/", "_", -1)\<close>\<close>
  "sanitize k = map (\<lambda>ch. if ch = CHR ''/'' then CHR ''_'' else ch) k"

definition dirMode :: "32 word" where
  \<comment> \<open>\<^verbatim>\<open>uint32(os.ModeDir | 0755)\<close>\<close>
  "dirMode = push_bit 31 1 OR 493"

definition getDir ::
  "collaborators \<Rightarrow> string \<Rightarrow> Source \<Rightarrow> time \<Rightarrow> string \<Rightarrow> ImmutableRef \<Rightarrow>
   Attestation list \<Rightarrow> run \<Rightarrow> (error + Dir) \<times> run"
where
  "getDir c sessionID inp now k ref attestations s =
     (case CreateFS c (trace s) sessionID k ref (Refs inp) attestations now (opts (inst s)) of
        (outputFS, cln, err) \<Rightarrow>
          (let s1 = log (CallCreateFS sessionID k ref (Refs inp) attestations now
                      (opts (inst s)) (outputFS, cln, err)) s
           in case err of
                Some e \<Rightarrow> (Inl e, s1)
              | None \<Rightarrow>
                  (let s2 = (case cln of
                               Some f \<Rightarrow> s1\<lparr>defers := defers s1 @ [f]\<rparr>
                             | None \<Rightarrow> s1);
                       st = \<lparr>Mode = dirMode, Path = sanitize k, ModTime = 0\<rparr>;
                       st' = (case Epoch (opts (inst s2)) of
                                Some tm \<Rightarrow> st\<lparr>ModTime := UnixNano tm\<rparr>
                              | None \<Rightarrow> st)
                   in (Inr \<lparr>FS = outputFS, Stat = st'\<rparr>, s2))))"

subsection \<open>Lines 136-158: map mode\<close>

text \<open>The result is \<^verbatim>\<open>isMap\<close> and \<^verbatim>\<open>p\<close> as they stand at line 159.\<close>

definition resolve ::
  "collaborators \<Rightarrow> CreateFSOpts \<Rightarrow> Source \<Rightarrow> error + (bool \<times> Platforms)"
where
  "resolve c cfg inp =
     (let isMap = (Refs inp \<noteq> []);
          found = map_of (Metadata inp) (ExporterPlatformsKey c)
      in if Refs inp \<noteq> [] \<and> found = None then Inl ErrMissingPlatformsMapping
         else
           (case (case found of
                    None \<Rightarrow> Inr (isMap, \<lparr>Platforms = []\<rparr>)
                  | Some platformsBytes \<Rightarrow>
                      if length platformsBytes > 0 then
                        (case Unmarshal c platformsBytes of
                           Inl err \<Rightarrow> Inl (ErrParsePlatforms err)
                         | Inr p \<Rightarrow>
                             Inr (if length (Platforms p) > 1 then True else isMap, p))
                      else Inr (isMap, \<lparr>Platforms = []\<rparr>)) of
              Inl err \<Rightarrow> Inl err
            | Inr (isMap1, p) \<Rightarrow>
                (let isMap2 = (case MultiPlatform cfg of Some b \<Rightarrow> b | None \<Rightarrow> isMap1)
                 in if \<not> isMap2 \<and> length (Platforms p) > 1
                    then Inl ErrMultiplePlatformsWithoutMap
                    else Inr (isMap2, p))))"

subsection \<open>Lines 160-192: the composed filesystem\<close>

text \<open>The loop of lines 164-178 over the platforms still to visit. It carries
  \<^verbatim>\<open>dirs\<close> and \<^verbatim>\<open>fs\<close>; the \<^verbatim>\<open>break\<close> of line 175 leaves
  it with the rest unvisited.\<close>

fun platformLoop ::
  "collaborators \<Rightarrow> string \<Rightarrow> Source \<Rightarrow> time \<Rightarrow> bool \<Rightarrow> Platform list \<Rightarrow>
   Dir list \<Rightarrow> FS \<Rightarrow> run \<Rightarrow> (error + (Dir list \<times> FS)) \<times> run"
where
  "platformLoop c sessionID inp now isMap [] dirs fs s = (Inr (dirs, fs), s)"
| "platformLoop c sessionID inp now isMap (p # ps) dirs fs s =
     (case map_of (Refs inp) (ID p) of
        None \<Rightarrow> (Inl (ErrMissingRef (ID p)), s)
      | Some r \<Rightarrow>
          (case getDir c sessionID inp now (ID p) r
                  (case map_of (Attestations inp) (ID p) of None \<Rightarrow> [] | Some a \<Rightarrow> a) s of
             (Inl err, s') \<Rightarrow> (Inl err, s')
           | (Inr d, s') \<Rightarrow>
               if \<not> isMap then (Inr (dirs, FS d), s')
               else platformLoop c sessionID inp now isMap ps (dirs @ [d]) fs s'))"

definition compose ::
  "collaborators \<Rightarrow> string \<Rightarrow> Source \<Rightarrow> time \<Rightarrow> bool \<Rightarrow> Platforms \<Rightarrow> run \<Rightarrow>
   (error + FS) \<times> run"
where
  "compose c sessionID inp now isMap p s =
     (if Refs inp \<noteq> [] then
        (case platformLoop c sessionID inp now isMap (Platforms p) [] NilFS s of
           (Inl err, s') \<Rightarrow> (Inl err, s')
         | (Inr (dirs, fs), s') \<Rightarrow>
             if isMap then
               (case SubDirFS c dirs of
                  Inl err \<Rightarrow> (Inl err, s')
                | Inr fs' \<Rightarrow> (Inr fs', s'))
             else (Inr fs, s'))
      else
        (case getDir c sessionID inp now [] (Ref inp) [] s of
           (Inl err, s') \<Rightarrow> (Inl err, s')
         | (Inr d, s') \<Rightarrow> (Inr (FS d), s')))"

subsection \<open>Lines 194-211: delivery\<close>

text \<open>Lines 197-211. The result is the error \<^verbatim>\<open>Export\<close> returns; the map it
  returns beside it is always nil.\<close>

definition sendTar ::
  "collaborators \<Rightarrow> string \<Rightarrow> FS \<Rightarrow> run \<Rightarrow> error option \<times> run"
where
  "sendTar c sessionID fs s =
     (case Get c (trace s) sessionID False of
        (caller, gerr) \<Rightarrow>
          (let s1 = log (CallGet sessionID False (caller, gerr)) s
           in case gerr of
                Some err \<Rightarrow> (Some err, s1)
              | None \<Rightarrow>
                  (case CopyFileWriter c (trace s1) caller of
                     (w, oerr) \<Rightarrow>
                       (let s2 = log (CallCopyFileWriter caller (w, oerr)) s1
                        in case oerr of
                             Some err \<Rightarrow> (Some err, s2)
                           | None \<Rightarrow>
                               (let s3 = log (CallOneOff ''sending tarball'') s2;
                                    werr = WriteTar c (trace s3) fs w;
                                    s4 = log (CallWriteTar fs w werr) s3
                                in case werr of
                                     Some err \<Rightarrow>
                                       (let s5 = log (CallClose w (Close c (trace s4) w)) s4;
                                            r = report c (trace s5) (Some err)
                                        in (r, log (CallReport (Some err) r) s5))
                                   | None \<Rightarrow>
                                       (let cerr = Close c (trace s4) w;
                                            s5 = log (CallClose w cerr) s4;
                                            r = report c (trace s5) cerr
                                        in (r, log (CallReport cerr r) s5)))))))"

text \<open>Lines 194-195 around it: the deferred \<^verbatim>\<open>cancel\<close> runs on each of these
  returns.\<close>

definition deliver ::
  "collaborators \<Rightarrow> string \<Rightarrow> FS \<Rightarrow> run \<Rightarrow> error option \<times> run"
where
  "deliver c sessionID fs s =
     (case sendTar c sessionID fs s of (r, s') \<Rightarrow> (r, log CallCancel s'))"

subsection \<open>Export\<close>

text \<open>A run starts on the receiver with an empty \<^verbatim>\<open>defers\<close> (line 95) and
  an empty log.\<close>

definition start :: "localExporterInstance \<Rightarrow> run" where
  "start e = \<lparr>inst = e, defers = [], trace = []\<rparr>"

text \<open>The body of \<^verbatim>\<open>Export\<close> up to its return statement.\<close>

definition exportBody ::
  "collaborators \<Rightarrow> localExporterInstance \<Rightarrow> Source \<Rightarrow> string \<Rightarrow> error option \<times> run"
where
  "exportBody c e inp sessionID =
     (case sourceEpoch c inp e of
        (Some err, e') \<Rightarrow> (Some err, start e')
      | (None, e') \<Rightarrow>
          (let s = start e';
               now = Truncate_Second (Now c)
           in case resolve c (opts (inst s)) inp of
                Inl err \<Rightarrow> (Some err, s)
              | Inr (isMap, p) \<Rightarrow>
                  (case compose c sessionID inp now isMap p s of
                     (Inl err, s') \<Rightarrow> (Some err, s')
                   | (Inr fs, s') \<Rightarrow> deliver c sessionID fs s')))"

text \<open>Lines 97-101: the deferred function calls the collected cleanups from the last to
  the first and drops what they return.\<close>

definition runDefers :: "run \<Rightarrow> run" where
  "runDefers s = s\<lparr>trace := trace s @ map CallCleanup (rev (defers s))\<rparr>"

text \<open>\<^verbatim>\<open>Export\<close>: the error returned, the receiver after the call, and the calls
  made.\<close>

definition Export ::
  "collaborators \<Rightarrow> localExporterInstance \<Rightarrow> Source \<Rightarrow> string \<Rightarrow>
   error option \<times> localExporterInstance \<times> event list"
where
  "Export c e inp sessionID =
     (case exportBody c e inp sessionID of
        (r, s) \<Rightarrow> (r, inst (runDefers s), trace (runDefers s)))"

subsection \<open>Reading the log\<close>

text \<open>The cleanup a call leaves to the caller: \<^verbatim>\<open>getDir\<close> appends the one a
  successful \<^verbatim>\<open>CreateFS\<close> returned, when it is not nil.\<close>

fun obligation :: "event \<Rightarrow> cleanup list" where
  "obligation (CallCreateFS _ _ _ _ _ _ _ (_, Some f, None)) = [f]"
| "obligation _ = []"

definition collected :: "event list \<Rightarrow> cleanup list" where
  "collected evs = concat (map obligation evs)"

fun isCleanup :: "event \<Rightarrow> bool" where
  "isCleanup (CallCleanup _) = True"
| "isCleanup _ = False"

text \<open>The key and the ref of each \<^verbatim>\<open>CreateFS\<close> call, in the order of the
  calls, and whether a call is a \<^verbatim>\<open>CreateFS\<close> that returned an error.\<close>

fun materialization :: "event \<Rightarrow> (string \<times> ImmutableRef) list" where
  "materialization (CallCreateFS _ k r _ _ _ _ _) = [(k, r)]"
| "materialization _ = []"

definition materialized :: "event list \<Rightarrow> (string \<times> ImmutableRef) list" where
  "materialized evs = concat (map materialization evs)"

fun isCreateFS :: "event \<Rightarrow> bool" where
  "isCreateFS (CallCreateFS _ _ _ _ _ _ _ _) = True"
| "isCreateFS _ = False"

fun failedCreateFS :: "event \<Rightarrow> bool" where
  "failedCreateFS (CallCreateFS _ _ _ _ _ _ _ (_, _, Some _)) = True"
| "failedCreateFS _ = False"

text \<open>The entry \<^verbatim>\<open>getDir\<close> writes to the log when called in state \<open>s\<close>.\<close>

definition createFSCall ::
  "collaborators \<Rightarrow> string \<Rightarrow> Source \<Rightarrow> time \<Rightarrow> string \<Rightarrow> ImmutableRef \<Rightarrow>
   Attestation list \<Rightarrow> run \<Rightarrow> event"
where
  "createFSCall c sid inp now k r a s =
     CallCreateFS sid k r (Refs inp) a now (opts (inst s))
       (CreateFS c (trace s) sid k r (Refs inp) a now (opts (inst s)))"

text \<open>A stage of \<^verbatim>\<open>Export\<close> takes \<open>s\<close> to \<open>s'\<close> by the calls \<open>evs\<close>: the
  receiver is untouched, the calls are appended and none is a cleanup, and \<^verbatim>\<open>defers\<close>
  grows by the obligations of exactly these calls.\<close>

definition extends :: "run \<Rightarrow> run \<Rightarrow> event list \<Rightarrow> bool" where
  "extends s s' evs \<longleftrightarrow>
     inst s' = inst s \<and> trace s' = trace s @ evs \<and>
     defers s' = defers s @ collected evs \<and> filter isCleanup evs = []"

subsection \<open>Example collaborators and inputs\<close>

definition amd64 :: Platform where
  "amd64 = \<lparr>ID = ''linux/amd64'', Platform = ''linux/amd64''\<rparr>"

definition arm64 :: Platform where
  "arm64 = \<lparr>ID = ''linux/arm64'', Platform = ''linux/arm64''\<rparr>"

text \<open>A metadata reader that knows three descriptors and an epoch entry, a
  \<^verbatim>\<open>CreateFS\<close> that numbers its handles and cleanups by the calls made before
  it, and a transport on which every call succeeds.\<close>

definition demo :: collaborators where
  "demo =
     \<lparr>ExporterPlatformsKey = ''refs.platforms'',
      Now = 1700000000500000000,
      ParseSource = (\<lambda>inp.
        case map_of (Metadata inp) ''source.date.epoch'' of
          None \<Rightarrow> (None, False, None)
        | Some v \<Rightarrow>
            if v = ''42'' then (Some 42000000000, True, None)
            else (None, False, Some (ErrExternal ''invalid SOURCE_DATE_EPOCH''))),
      Unmarshal = (\<lambda>bs.
        if bs = ''amd64,arm64'' then Inr \<lparr>Platforms = [amd64, arm64]\<rparr>
        else if bs = ''arm64'' then Inr \<lparr>Platforms = [arm64]\<rparr>
        else if bs = ''amd64'' then Inr \<lparr>Platforms = [amd64]\<rparr>
        else Inl (ErrExternal ''invalid character'')),
      CreateFS = (\<lambda>h sid k r rs a t cfg.
        (FSHandle (length h), Some (CleanupId (length h)), None)),
      SubDirFS = (\<lambda>dirs. Inr (FSHandle 100)),
      Get = (\<lambda>h sid b. (CallerId 0, None)),
      CopyFileWriter = (\<lambda>h caller. (WriterId 0, None)),
      WriteTar = (\<lambda>h fs w. None),
      Close = (\<lambda>h w. None),
      report = (\<lambda>h err. err)\<rparr>"

definition broken :: collaborators where
  \<comment> \<open>the same, with a sink on which both the writing and the closing fail\<close>
  "broken = demo\<lparr>WriteTar := (\<lambda>h fs w. Some (ErrExternal ''write'')),
                  Close := (\<lambda>h w. Some (ErrExternal ''close''))\<rparr>"

definition flaky :: collaborators where
  \<comment> \<open>the same, with a \<^verbatim>\<open>CreateFS\<close> that succeeds on the first call only\<close>
  "flaky = demo\<lparr>CreateFS := (\<lambda>h sid k r rs a t cfg.
       if h = [] then (FSHandle 0, Some (CleanupId 0), None)
       else (NilFS, None, Some (ErrExternal ''no space left on device'')))\<rparr>"

definition plain :: localExporterInstance where
  "plain = \<lparr>opts = \<lparr>Epoch = None, AttestationPrefix = [], MultiPlatform = None\<rparr>,
            preferNonDist = False\<rparr>"

definition flat :: localExporterInstance where
  \<comment> \<open>map mode switched off by the option\<close>
  "flat = \<lparr>opts = \<lparr>Epoch = None, AttestationPrefix = [], MultiPlatform = Some False\<rparr>,
           preferNonDist = False\<rparr>"

definition forced :: localExporterInstance where
  \<comment> \<open>map mode switched on by the option\<close>
  "forced = \<lparr>opts = \<lparr>Epoch = None, AttestationPrefix = [], MultiPlatform = Some True\<rparr>,
             preferNonDist = False\<rparr>"

definition single :: Source where
  "single = \<lparr>Ref = RefId 7, Refs = [], Metadata = [], Attestations = []\<rparr>"

definition mapped :: "string \<Rightarrow> Source" where
  \<comment> \<open>refs for both platforms; the argument is the platforms entry of the metadata\<close>
  "mapped bs =
     \<lparr>Ref = NilRef,
      Refs = [(''linux/amd64'', RefId 1), (''linux/arm64'', RefId 2)],
      Metadata = [(''refs.platforms'', bs)],
      Attestations = []\<rparr>"

definition amd64Only :: "string \<Rightarrow> Source" where
  \<comment> \<open>a ref for linux/amd64 alone\<close>
  "amd64Only bs =
     \<lparr>Ref = NilRef,
      Refs = [(''linux/amd64'', RefId 1)],
      Metadata = [(''refs.platforms'', bs)],
      Attestations = []\<rparr>"

definition unlisted :: Source where
  \<comment> \<open>one mapped ref and no platforms entry in the metadata\<close>
  "unlisted = \<lparr>Ref = NilRef, Refs = [(''linux/amd64'', RefId 1)], Metadata = [],
               Attestations = []\<rparr>"

definition misdated :: Source where
  \<comment> \<open>one mapped ref, no platforms entry, and an epoch entry that does not parse\<close>
  "misdated = \<lparr>Ref = NilRef, Refs = [(''linux/amd64'', RefId 1)],
                Metadata = [(''source.date.epoch'', ''yesterday'')], Attestations = []\<rparr>"

definition dated :: Source where
  \<comment> \<open>a single ref whose metadata carries an epoch\<close>
  "dated = \<lparr>Ref = RefId 7, Refs = [], Metadata = [(''source.date.epoch'', ''42'')],
            Attestations = []\<rparr>"

definition stamped :: localExporterInstance where
  \<comment> \<open>an epoch set by the exporter's options\<close>
  "stamped = \<lparr>opts = \<lparr>Epoch = Some 86400000000000, AttestationPrefix = [],
                        MultiPlatform = None\<rparr>,
              preferNonDist = False\<rparr>"

section \<open>Properties\<close>

subsection \<open>The log\<close>

lemma collected_append: "collected (xs @ ys) = collected xs @ collected ys"
  by (simp add: collected_def)

lemma materialized_append: "materialized (xs @ ys) = materialized xs @ materialized ys"
  by (simp add: materialized_def)

lemma materialized_Cons: "materialized (ev # evs) = materialization ev @ materialized evs"
  by (simp add: materialized_def)

lemma materialized_cleanups: "materialized (map CallCleanup cs) = []"
  by (induction cs) (simp_all add: materialized_def)

lemma not_in_createFS_calls:
  "list_all isCreateFS evs \<Longrightarrow> \<not> isCreateFS ev \<Longrightarrow> ev \<notin> set evs"
  by (auto simp: list_all_iff)

subsection \<open>getDir\<close>

lemma getDir_run:
  assumes "getDir c sid inp now k r a s = (res, s')"
  shows "inst s' = inst s"
    and "trace s' = trace s @ [createFSCall c sid inp now k r a s]"
    and "defers s' = defers s @ obligation (createFSCall c sid inp now k r a s)"
  using assms
  by (auto simp: getDir_def log_def Let_def createFSCall_def split: prod.splits option.splits)

lemma getDir_result:
  "fst (getDir c sid inp now k r a s) =
     (case CreateFS c (trace s) sid k r (Refs inp) a now (opts (inst s)) of
        (fs, cln, None) \<Rightarrow>
          Inr \<lparr>FS = fs,
               Stat = \<lparr>Mode = dirMode, Path = sanitize k,
                       ModTime = (case Epoch (opts (inst s)) of Some tm \<Rightarrow> UnixNano tm | None \<Rightarrow> 0)\<rparr>\<rparr>
      | (fs, cln, Some err) \<Rightarrow> Inl err)"
  by (auto simp: getDir_def log_def Let_def split: prod.splits option.splits)

lemma getDir_Inl:
  assumes "getDir c sid inp now k r a s = (Inl err, s')"
  shows "\<exists>fs cln. CreateFS c (trace s) sid k r (Refs inp) a now (opts (inst s)) = (fs, cln, Some err)"
  using assms by (auto simp: getDir_def log_def Let_def split: prod.splits option.splits)

lemma createFSCall_simps [simp]:
  "isCreateFS (createFSCall c sid inp now k r a s)"
  "materialization (createFSCall c sid inp now k r a s) = [(k, r)]"
  by (simp_all add: createFSCall_def)

lemma isCleanup_createFSCall: "\<not> isCleanup (createFSCall c sid inp now k r a s)"
  by (simp add: createFSCall_def)

lemma getDir_failed:
  assumes "getDir c sid inp now k r a s = (Inl err, s')"
  shows "failedCreateFS (createFSCall c sid inp now k r a s)"
  using getDir_Inl[OF assms] by (auto simp: createFSCall_def)

subsection \<open>The stages\<close>

lemma extends_refl: "extends s s []"
  by (simp add: extends_def collected_def)

lemma extends_trans:
  "extends s s' xs \<Longrightarrow> extends s' s'' ys \<Longrightarrow> extends s s'' (xs @ ys)"
  by (simp add: extends_def collected_append)

lemma getDir_extends:
  assumes "getDir c sid inp now k r a s = (res, s')"
  shows "extends s s' [createFSCall c sid inp now k r a s]"
  using getDir_run[OF assms]
  by (simp add: extends_def collected_def isCleanup_createFSCall)

lemma platformLoop_calls:
  "platformLoop c sid inp now isMap ps dirs fs s = (res, s') \<Longrightarrow>
   \<exists>evs. extends s s' evs \<and> list_all isCreateFS evs"
proof (induction ps arbitrary: dirs fs s)
  case Nil
  then have "extends s s' [] \<and> list_all isCreateFS []" using extends_refl by auto
  then show ?case by blast
next
  case (Cons p ps)
  show ?case
  proof (cases "map_of (Refs inp) (ID p)")
    case None
    with Cons.prems have "extends s s' [] \<and> list_all isCreateFS []" using extends_refl by auto
    then show ?thesis by blast
  next
    case (Some r)
    let ?a = "case map_of (Attestations inp) (ID p) of None \<Rightarrow> [] | Some a \<Rightarrow> a"
    obtain g s1 where g: "getDir c sid inp now (ID p) r ?a s = (g, s1)"
      by (cases "getDir c sid inp now (ID p) r ?a s")
    let ?ev = "createFSCall c sid inp now (ID p) r ?a s"
    from getDir_extends[OF g] have e1: "extends s s1 [?ev] \<and> list_all isCreateFS [?ev]"
      by simp
    show ?thesis
    proof (cases g)
      case (Inl err)
      with Cons.prems Some g have "s' = s1" by simp
      with e1 show ?thesis by blast
    next
      case (Inr d)
      show ?thesis
      proof (cases isMap)
        case False
        with Cons.prems Some g Inr have "s' = s1" by simp
        with e1 show ?thesis by blast
      next
        case True
        with Cons.prems Some g Inr
        have "platformLoop c sid inp now isMap ps (dirs @ [d]) fs s1 = (res, s')" by simp
        from Cons.IH[OF this] obtain evs where "extends s1 s' evs" "list_all isCreateFS evs"
          by blast
        with e1 extends_trans[of s s1 "[?ev]" s' evs]
        have "extends s s' ([?ev] @ evs) \<and> list_all isCreateFS ([?ev] @ evs)"
          by simp
        then show ?thesis by blast
      qed
    qed
  qed
qed

lemma compose_calls:
  assumes "compose c sid inp now isMap p s = (res, s')"
  shows "\<exists>evs. extends s s' evs \<and> list_all isCreateFS evs"
proof (cases "Refs inp \<noteq> []")
  case True
  obtain l s1 where l: "platformLoop c sid inp now isMap (Platforms p) [] NilFS s = (l, s1)"
    by (cases "platformLoop c sid inp now isMap (Platforms p) [] NilFS s")
  from assms True l have "s' = s1"
    by (auto simp: compose_def split: sum.splits if_splits prod.splits)
  with platformLoop_calls[OF l] show ?thesis by simp
next
  case False
  obtain g s1 where g: "getDir c sid inp now [] (Ref inp) [] s = (g, s1)"
    by (cases "getDir c sid inp now [] (Ref inp) [] s")
  from assms False g have "s' = s1"
    by (auto simp: compose_def split: sum.splits)
  with getDir_extends[OF g]
  have "extends s s' [createFSCall c sid inp now [] (Ref inp) [] s] \<and>
        list_all isCreateFS [createFSCall c sid inp now [] (Ref inp) [] s]" by simp
  then show ?thesis by blast
qed

lemma compose_extends:
  assumes "compose c sid inp now isMap p s = (res, s')"
  shows "\<exists>evs. extends s s' evs"
  using compose_calls[OF assms] by blast

lemma deliver_cases [case_names getErr openErr sent]:
  obtains
    caller err where "Get c (trace s) sid False = (caller, Some err)"
      and "deliver c sid fs s =
            (Some err, s\<lparr>trace := trace s @ [CallGet sid False (caller, Some err), CallCancel]\<rparr>)"
  | caller w err where "Get c (trace s) sid False = (caller, None)"
      and "CopyFileWriter c (trace s @ [CallGet sid False (caller, None)]) caller = (w, Some err)"
      and "deliver c sid fs s =
            (Some err, s\<lparr>trace := trace s @ [CallGet sid False (caller, None),
               CallCopyFileWriter caller (w, Some err), CallCancel]\<rparr>)"
  | caller w werr cerr r where "Get c (trace s) sid False = (caller, None)"
      and "CopyFileWriter c (trace s @ [CallGet sid False (caller, None)]) caller = (w, None)"
      and "werr = WriteTar c (trace s @ [CallGet sid False (caller, None),
              CallCopyFileWriter caller (w, None), CallOneOff ''sending tarball'']) fs w"
      and "cerr = Close c (trace s @ [CallGet sid False (caller, None),
              CallCopyFileWriter caller (w, None), CallOneOff ''sending tarball'',
              CallWriteTar fs w werr]) w"
      and "r = report c (trace s @ [CallGet sid False (caller, None),
              CallCopyFileWriter caller (w, None), CallOneOff ''sending tarball'',
              CallWriteTar fs w werr, CallClose w cerr])
              (case werr of Some err \<Rightarrow> Some err | None \<Rightarrow> cerr)"
      and "deliver c sid fs s =
            (r, s\<lparr>trace := trace s @ [CallGet sid False (caller, None),
               CallCopyFileWriter caller (w, None), CallOneOff ''sending tarball'',
               CallWriteTar fs w werr, CallClose w cerr,
               CallReport (case werr of Some err \<Rightarrow> Some err | None \<Rightarrow> cerr) r, CallCancel]\<rparr>)"
proof -
  obtain caller gerr where g: "Get c (trace s) sid False = (caller, gerr)"
    by (cases "Get c (trace s) sid False")
  show ?thesis
  proof (cases gerr)
    case (Some err)
    with g have "deliver c sid fs s =
        (Some err, s\<lparr>trace := trace s @ [CallGet sid False (caller, Some err), CallCancel]\<rparr>)"
      by (simp add: deliver_def sendTar_def log_def)
    with g Some show ?thesis using that(1) by blast
  next
    case None
    note gn = this
    obtain w oerr where o:
      "CopyFileWriter c (trace s @ [CallGet sid False (caller, None)]) caller = (w, oerr)"
      by (cases "CopyFileWriter c (trace s @ [CallGet sid False (caller, None)]) caller")
    show ?thesis
    proof (cases oerr)
      case (Some err)
      with g gn o have "deliver c sid fs s =
          (Some err, s\<lparr>trace := trace s @ [CallGet sid False (caller, None),
             CallCopyFileWriter caller (w, Some err), CallCancel]\<rparr>)"
        by (simp add: deliver_def sendTar_def log_def)
      with g gn o Some show ?thesis using that(2) by blast
    next
      case None
      let ?t3 = "trace s @ [CallGet sid False (caller, None),
              CallCopyFileWriter caller (w, None), CallOneOff ''sending tarball'']"
      let ?werr = "WriteTar c ?t3 fs w"
      let ?t4 = "trace s @ [CallGet sid False (caller, None),
              CallCopyFileWriter caller (w, None), CallOneOff ''sending tarball'',
              CallWriteTar fs w ?werr]"
      let ?cerr = "Close c ?t4 w"
      let ?x = "case ?werr of Some err \<Rightarrow> Some err | None \<Rightarrow> ?cerr"
      let ?r = "report c (trace s @ [CallGet sid False (caller, None),
              CallCopyFileWriter caller (w, None), CallOneOff ''sending tarball'',
              CallWriteTar fs w ?werr, CallClose w ?cerr]) ?x"
      from g gn o None have "deliver c sid fs s =
            (?r, s\<lparr>trace := trace s @ [CallGet sid False (caller, None),
               CallCopyFileWriter caller (w, None), CallOneOff ''sending tarball'',
               CallWriteTar fs w ?werr, CallClose w ?cerr, CallReport ?x ?r, CallCancel]\<rparr>)"
        by (cases ?werr) (simp_all add: deliver_def sendTar_def log_def Let_def)
      with g gn o None show ?thesis using that(3)[of caller w ?werr ?cerr ?r] by blast
    qed
  qed
qed

lemma deliver_extends:
  assumes "deliver c sid fs s = (r, s')"
  shows "\<exists>evs. extends s s' evs"
proof (cases rule: deliver_cases[of c s sid fs])
  case (getErr caller err)
  with assms have "extends s s' [CallGet sid False (caller, Some err), CallCancel]"
    by (auto simp: extends_def collected_def)
  then show ?thesis ..
next
  case (openErr caller w err)
  with assms have "extends s s' [CallGet sid False (caller, None),
      CallCopyFileWriter caller (w, Some err), CallCancel]"
    by (auto simp: extends_def collected_def)
  then show ?thesis ..
next
  case (sent caller w werr cerr r1)
  with assms have "extends s s' [CallGet sid False (caller, None),
      CallCopyFileWriter caller (w, None), CallOneOff ''sending tarball'',
      CallWriteTar fs w werr, CallClose w cerr,
      CallReport (case werr of Some err \<Rightarrow> Some err | None \<Rightarrow> cerr) r1, CallCancel]"
    by (auto simp: extends_def collected_def)
  then show ?thesis ..
qed

lemma deliver_log:
  assumes "deliver c sid fs s = (r, s')"
  shows "\<exists>evs. trace s' = trace s @ evs \<and> defers s' = defers s \<and> materialized evs = [] \<and>
           (\<forall>fs' w werr. CallWriteTar fs' w werr \<in> set evs \<longrightarrow> fs' = fs)"
proof (cases rule: deliver_cases[of c s sid fs])
  case (getErr caller err)
  with assms have "trace s' = trace s @ [CallGet sid False (caller, Some err), CallCancel]"
    "defers s' = defers s" by auto
  then show ?thesis by (auto simp: materialized_def)
next
  case (openErr caller w err)
  with assms have "trace s' = trace s @ [CallGet sid False (caller, None),
               CallCopyFileWriter caller (w, Some err), CallCancel]"
    "defers s' = defers s" by auto
  then show ?thesis by (auto simp: materialized_def)
next
  case (sent caller w werr cerr r1)
  with assms have "trace s' = trace s @ [CallGet sid False (caller, None),
               CallCopyFileWriter caller (w, None), CallOneOff ''sending tarball'',
               CallWriteTar fs w werr, CallClose w cerr,
               CallReport (case werr of Some err \<Rightarrow> Some err | None \<Rightarrow> cerr) r1, CallCancel]"
    "defers s' = defers s" by auto
  then show ?thesis by (auto simp: materialized_def)
qed

subsection \<open>The epoch and the resolver\<close>

lemma sourceEpoch_keeps:
  assumes "sourceEpoch c inp e = (r, e')"
  shows "preferNonDist e' = preferNonDist e"
    and "AttestationPrefix (opts e') = AttestationPrefix (opts e)"
    and "MultiPlatform (opts e') = MultiPlatform (opts e)"
  using assms by (auto simp: sourceEpoch_def split: if_splits prod.splits)

lemma resolve_override_value:
  "MultiPlatform cfg = Some b \<Longrightarrow> resolve c cfg inp = Inr (isMap, p) \<Longrightarrow> isMap = b"
  by (auto simp: resolve_def Let_def split: if_splits option.splits sum.splits)

lemma resolve_override_on:
  "MultiPlatform cfg = Some True \<Longrightarrow> resolve c cfg inp \<noteq> Inl ErrMultiplePlatformsWithoutMap"
  by (auto simp: resolve_def Let_def split: if_splits option.splits sum.splits)

lemma resolve_flat_single:
  "resolve c cfg inp = Inr (isMap, p) \<Longrightarrow> 1 < length (Platforms p) \<Longrightarrow> isMap"
  by (auto simp: resolve_def Let_def split: if_splits option.splits sum.splits)

lemma resolve_flat_length:
  "resolve c cfg inp = Inr (False, p) \<Longrightarrow> length (Platforms p) \<le> 1"
  using resolve_flat_single[of c cfg inp False p] by (cases "1 < length (Platforms p)") auto

lemma resolve_conflict:
  assumes "MultiPlatform cfg = Some False"
    and "map_of (Metadata inp) (ExporterPlatformsKey c) = Some bs" and "bs \<noteq> []"
    and "Unmarshal c bs = Inr p" and "1 < length (Platforms p)"
  shows "resolve c cfg inp = Inl ErrMultiplePlatformsWithoutMap"
  using assms by (simp add: resolve_def Let_def)

subsection \<open>Composition\<close>

lemma compose_single:
  assumes "Refs inp = []" and "compose c sid inp now isMap p s = (res, s')"
  shows "trace s' = trace s @ [createFSCall c sid inp now [] (Ref inp) [] s]"
    and "res = (case CreateFS c (trace s) sid [] (Ref inp) (Refs inp) [] now (opts (inst s)) of
                  (fs, cln, None) \<Rightarrow> Inr fs | (fs, cln, Some err) \<Rightarrow> Inl err)"
proof -
  obtain g s1 where g: "getDir c sid inp now [] (Ref inp) [] s = (g, s1)"
    by (cases "getDir c sid inp now [] (Ref inp) [] s")
  from assms g have s': "s' = s1" and res: "res = (case g of Inl err \<Rightarrow> Inl err | Inr d \<Rightarrow> Inr (FS d))"
    by (auto simp: compose_def split: sum.splits)
  from getDir_run(2)[OF g] s'
  show "trace s' = trace s @ [createFSCall c sid inp now [] (Ref inp) [] s]" by simp
  from getDir_result[of c sid inp now "[]" "Ref inp" "[]" s] g res
  show "res = (case CreateFS c (trace s) sid [] (Ref inp) (Refs inp) [] now (opts (inst s)) of
                  (fs, cln, None) \<Rightarrow> Inr fs | (fs, cln, Some err) \<Rightarrow> Inl err)"
    by (auto split: prod.splits option.splits)
qed

lemma compose_flat_first:
  assumes "Refs inp \<noteq> []" and "Platforms p = q # rest" and "map_of (Refs inp) (ID q) = Some r"
    and "compose c sid inp now False p s = (res, s')"
  shows "trace s' = trace s @ [createFSCall c sid inp now (ID q) r
            (case map_of (Attestations inp) (ID q) of None \<Rightarrow> [] | Some a \<Rightarrow> a) s]"
    and "res = (case CreateFS c (trace s) sid (ID q) r (Refs inp)
                       (case map_of (Attestations inp) (ID q) of None \<Rightarrow> [] | Some a \<Rightarrow> a)
                       now (opts (inst s)) of
                  (fs, cln, None) \<Rightarrow> Inr fs | (fs, cln, Some err) \<Rightarrow> Inl err)"
proof -
  let ?a = "case map_of (Attestations inp) (ID q) of None \<Rightarrow> [] | Some a \<Rightarrow> a"
  obtain g s1 where g: "getDir c sid inp now (ID q) r ?a s = (g, s1)"
    by (cases "getDir c sid inp now (ID q) r ?a s")
  from assms g have s': "s' = s1" and res: "res = (case g of Inl err \<Rightarrow> Inl err | Inr d \<Rightarrow> Inr (FS d))"
    by (auto simp: compose_def split: sum.splits)
  from getDir_run(2)[OF g] s'
  show "trace s' = trace s @ [createFSCall c sid inp now (ID q) r ?a s]" by simp
  from getDir_result[of c sid inp now "ID q" r ?a s] g res
  show "res = (case CreateFS c (trace s) sid (ID q) r (Refs inp) ?a now (opts (inst s)) of
                  (fs, cln, None) \<Rightarrow> Inr fs | (fs, cln, Some err) \<Rightarrow> Inl err)"
    by (auto split: prod.splits option.splits)
qed

lemma compose_no_platforms:
  "Refs inp \<noteq> [] \<Longrightarrow>
   compose c sid inp now False \<lparr>Platforms = []\<rparr> s = (Inr NilFS, s)"
  by (simp add: compose_def)

lemma platformLoop_missing:
  assumes "\<forall>x\<in>set pre. map_of (Refs inp) (ID x) \<noteq> None"
    and "map_of (Refs inp) (ID q) = None"
    and "isMap \<or> pre = []"
    and "platformLoop c sid inp now isMap (pre @ q # post) dirs fs s = (res, s')"
  shows "\<exists>evs err. trace s' = trace s @ evs \<and> res = Inl err \<and>
           prefix (map (\<lambda>(k, r). (k, Some r)) (materialized evs))
                  (map (\<lambda>x. (ID x, map_of (Refs inp) (ID x))) pre) \<and>
           (filter failedCreateFS evs = [] \<longrightarrow>
              err = ErrMissingRef (ID q) \<and>
              map (\<lambda>(k, r). (k, Some r)) (materialized evs) =
                map (\<lambda>x. (ID x, map_of (Refs inp) (ID x))) pre)"
  using assms
proof (induction pre arbitrary: dirs s)
  case Nil
  then have "res = Inl (ErrMissingRef (ID q))" "s' = s" by auto
  then have "trace s' = trace s @ [] \<and> res = Inl (ErrMissingRef (ID q)) \<and>
      prefix (map (\<lambda>(k, r). (k, Some r)) (materialized []))
             (map (\<lambda>x. (ID x, map_of (Refs inp) (ID x))) []) \<and>
      (filter failedCreateFS [] = [] \<longrightarrow>
         ErrMissingRef (ID q) = ErrMissingRef (ID q) \<and>
         map (\<lambda>(k, r). (k, Some r)) (materialized []) =
           map (\<lambda>x. (ID x, map_of (Refs inp) (ID x))) [])"
    by (simp add: materialized_def)
  then show ?case by blast
next
  case (Cons x xs)
  from Cons.prems(1) obtain r where r: "map_of (Refs inp) (ID x) = Some r" by auto
  from Cons.prems(3) have isMap: isMap by simp
  let ?a = "case map_of (Attestations inp) (ID x) of None \<Rightarrow> [] | Some a \<Rightarrow> a"
  let ?ev = "createFSCall c sid inp now (ID x) r ?a s"
  obtain g s1 where g: "getDir c sid inp now (ID x) r ?a s = (g, s1)"
    by (cases "getDir c sid inp now (ID x) r ?a s")
  from getDir_run(2)[OF g] have t1: "trace s1 = trace s @ [?ev]" .
  show ?case
  proof (cases g)
    case (Inl err)
    with Cons.prems(4) r g have "res = Inl err" "s' = s1" by auto
    moreover from getDir_failed[OF g[unfolded Inl]] have "filter failedCreateFS [?ev] \<noteq> []"
      by simp
    ultimately have "trace s' = trace s @ [?ev] \<and> res = Inl err \<and>
      prefix (map (\<lambda>(k, r). (k, Some r)) (materialized [?ev]))
             (map (\<lambda>x. (ID x, map_of (Refs inp) (ID x))) (x # xs)) \<and>
      (filter failedCreateFS [?ev] = [] \<longrightarrow>
         err = ErrMissingRef (ID q) \<and>
         map (\<lambda>(k, r). (k, Some r)) (materialized [?ev]) =
           map (\<lambda>x. (ID x, map_of (Refs inp) (ID x))) (x # xs))"
      using t1 r by (simp add: materialized_def)
    then show ?thesis by blast
  next
    case (Inr d)
    with Cons.prems(4) r g isMap
    have l: "platformLoop c sid inp now isMap (xs @ q # post) (dirs @ [d]) fs s1 = (res, s')"
      by simp
    from Cons.prems(1) have p1: "\<forall>x\<in>set xs. map_of (Refs inp) (ID x) \<noteq> None" by simp
    from isMap have p3: "isMap \<or> xs = []" by simp
    from Cons.IH[OF p1 Cons.prems(2) p3 l] obtain evs err where
      ih: "trace s' = trace s1 @ evs" "res = Inl err"
        "prefix (map (\<lambda>(k, r). (k, Some r)) (materialized evs))
                (map (\<lambda>x. (ID x, map_of (Refs inp) (ID x))) xs)"
        "filter failedCreateFS evs = [] \<longrightarrow>
              err = ErrMissingRef (ID q) \<and>
              map (\<lambda>(k, r). (k, Some r)) (materialized evs) =
                map (\<lambda>x. (ID x, map_of (Refs inp) (ID x))) xs"
      by blast
    have "trace s' = trace s @ (?ev # evs) \<and> res = Inl err \<and>
      prefix (map (\<lambda>(k, r). (k, Some r)) (materialized (?ev # evs)))
             (map (\<lambda>x. (ID x, map_of (Refs inp) (ID x))) (x # xs)) \<and>
      (filter failedCreateFS (?ev # evs) = [] \<longrightarrow>
         err = ErrMissingRef (ID q) \<and>
         map (\<lambda>(k, r). (k, Some r)) (materialized (?ev # evs)) =
           map (\<lambda>x. (ID x, map_of (Refs inp) (ID x))) (x # xs))"
      using ih t1 r by (simp add: materialized_Cons split: if_splits)
    then show ?thesis by blast
  qed
qed

subsection \<open>Runs of Export\<close>

lemmas demo_defs =
  demo_def plain_def flat_def forced_def stamped_def single_def dated_def unlisted_def misdated_def mapped_def
  amd64Only_def amd64_def arm64_def start_def

lemmas stage_defs =
  Export_def exportBody_def sourceEpoch_def resolve_def compose_def deliver_def sendTar_def
  runDefers_def log_def getDir_def Let_def

lemma Export_cases [case_names epochErr resolveErr composeErr delivered]:
  obtains
    err e' where "sourceEpoch c inp e = (Some err, e')"
      and "Export c e inp sid = (Some err, e', [])"
  | err e' where "sourceEpoch c inp e = (None, e')"
      and "resolve c (opts e') inp = Inl err"
      and "Export c e inp sid = (Some err, e', [])"
  | err e' isMap p s1 where "sourceEpoch c inp e = (None, e')"
      and "resolve c (opts e') inp = Inr (isMap, p)"
      and "compose c sid inp (Truncate_Second (Now c)) isMap p (start e') = (Inl err, s1)"
      and "Export c e inp sid = (Some err, e', trace s1 @ map CallCleanup (rev (defers s1)))"
  | r e' isMap p fs s1 s2 where "sourceEpoch c inp e = (None, e')"
      and "resolve c (opts e') inp = Inr (isMap, p)"
      and "compose c sid inp (Truncate_Second (Now c)) isMap p (start e') = (Inr fs, s1)"
      and "deliver c sid fs s1 = (r, s2)"
      and "Export c e inp sid = (r, e', trace s2 @ map CallCleanup (rev (defers s2)))"
proof -
  obtain r0 e' where se: "sourceEpoch c inp e = (r0, e')" by (cases "sourceEpoch c inp e")
  show ?thesis
  proof (cases r0)
    case (Some err)
    with se have "Export c e inp sid = (Some err, e', [])"
      by (simp add: Export_def exportBody_def runDefers_def start_def)
    with se Some show ?thesis using that(1) by blast
  next
    case None
    note r0 = this
    show ?thesis
    proof (cases "resolve c (opts e') inp")
      case (Inl err)
      with se r0 have "Export c e inp sid = (Some err, e', [])"
        by (simp add: Export_def exportBody_def runDefers_def start_def)
      with se r0 Inl show ?thesis using that(2) by blast
    next
      case (Inr mp)
      obtain isMap p where mp: "mp = (isMap, p)" by (cases mp)
      obtain cr s1 where co:
        "compose c sid inp (Truncate_Second (Now c)) isMap p (start e') = (cr, s1)"
        by (cases "compose c sid inp (Truncate_Second (Now c)) isMap p (start e')")
      from compose_extends[OF co] have i1: "inst s1 = e'"
        by (auto simp: extends_def start_def)
      show ?thesis
      proof (cases cr)
        case (Inl err)
        with se r0 Inr mp co i1
        have "Export c e inp sid = (Some err, e', trace s1 @ map CallCleanup (rev (defers s1)))"
          by (simp add: Export_def exportBody_def runDefers_def start_def)
        with se r0 Inr mp co Inl show ?thesis using that(3) by blast
      next
        case (Inr fs)
        obtain r s2 where d: "deliver c sid fs s1 = (r, s2)" by (cases "deliver c sid fs s1")
        from deliver_extends[OF d] i1 have i2: "inst s2 = e'" by (auto simp: extends_def)
        from se r0 \<open>resolve c (opts e') inp = Inr mp\<close> mp co Inr d i2
        have "Export c e inp sid = (r, e', trace s2 @ map CallCleanup (rev (defers s2)))"
          by (simp add: Export_def exportBody_def runDefers_def start_def)
        with se r0 \<open>resolve c (opts e') inp = Inr mp\<close> mp co Inr d show ?thesis
          using that(4) by blast
      qed
    qed
  qed
qed

lemma Export_inst: "fst (snd (Export c e inp sid)) = snd (sourceEpoch c inp e)"
  by (cases rule: Export_cases[of c inp e sid]) simp_all

lemma Export_epoch_error:
  assumes "sourceEpoch c inp e = (Some err, e')"
  shows "Export c e inp sid = (Some err, e', [])"
  using assms by (simp add: Export_def exportBody_def runDefers_def start_def)

lemma Export_resolve_error:
  assumes "sourceEpoch c inp e = (None, e')" and "resolve c (opts e') inp = Inl err"
  shows "Export c e inp sid = (Some err, e', [])"
  using assms by (simp add: Export_def exportBody_def runDefers_def start_def)

lemma Export_compose_error:
  assumes "sourceEpoch c inp e = (None, e')" and "resolve c (opts e') inp = Inr (isMap, p)"
    and "compose c sid inp (Truncate_Second (Now c)) isMap p (start e') = (Inl err, s1)"
  shows "Export c e inp sid = (Some err, e', trace s1 @ map CallCleanup (rev (collected (trace s1))))"
proof -
  from compose_extends[OF assms(3)] have "inst s1 = e'" "defers s1 = collected (trace s1)"
    by (auto simp: extends_def start_def)
  with assms show ?thesis
    by (simp add: Export_def exportBody_def runDefers_def start_def)
qed

lemma Export_delivered:
  assumes "sourceEpoch c inp e = (None, e')" and "resolve c (opts e') inp = Inr (isMap, p)"
    and "compose c sid inp (Truncate_Second (Now c)) isMap p (start e') = (Inr fs, s1)"
    and "deliver c sid fs s1 = (r, s2)"
  shows "Export c e inp sid = (r, e', trace s2 @ map CallCleanup (rev (defers s2)))"
proof -
  from compose_extends[OF assms(3)] have "inst s1 = e'"
    by (auto simp: extends_def start_def)
  with deliver_extends[OF assms(4)] have "inst s2 = e'" by (auto simp: extends_def)
  with assms show ?thesis
    by (simp add: Export_def exportBody_def runDefers_def start_def)
qed

text \<open>What a run whose composition made the single call \<open>ev\<close> logs after it.\<close>

lemma Export_after_one_call:
  assumes se: "sourceEpoch c inp e = (None, e')"
    and re: "resolve c (opts e') inp = Inr (isMap, p)"
    and co: "compose c sid inp (Truncate_Second (Now c)) isMap p (start e') = (res, s1)"
    and t1: "trace s1 = [ev]"
  shows "\<exists>tail. snd (snd (Export c e inp sid)) = ev # tail \<and> materialized tail = [] \<and>
           (\<forall>fs w werr. CallWriteTar fs w werr \<in> set tail \<longrightarrow> res = Inr fs) \<and>
           (\<forall>err. res = Inl err \<longrightarrow> fst (Export c e inp sid) = Some err)"
proof (cases res)
  case (Inl err)
  from Export_compose_error[OF se re co[unfolded Inl]] t1
  have "Export c e inp sid = (Some err, e', ev # map CallCleanup (rev (collected [ev])))"
    by simp
  with Inl show ?thesis by (auto simp: materialized_cleanups)
next
  case (Inr fs)
  obtain r s2 where d: "deliver c sid fs s1 = (r, s2)" by (cases "deliver c sid fs s1")
  from deliver_log[OF d] t1 obtain evs where evs: "trace s2 = ev # evs" "materialized evs = []"
    "\<forall>fs' w werr. CallWriteTar fs' w werr \<in> set evs \<longrightarrow> fs' = fs" by auto
  from Export_delivered[OF se re co[unfolded Inr] d] evs(1)
  have "Export c e inp sid = (r, e', ev # evs @ map CallCleanup (rev (defers s2)))" by simp
  moreover have "materialized (evs @ map CallCleanup (rev (defers s2))) = []"
    using evs(2) by (simp add: materialized_append materialized_cleanups)
  moreover have "\<forall>fs' w werr. CallWriteTar fs' w werr \<in> set (evs @ map CallCleanup (rev (defers s2)))
      \<longrightarrow> res = Inr fs'"
    using evs(3) Inr by auto
  ultimately show ?thesis using Inr by auto
qed

lemma resolve_override_unlisted:
  assumes "MultiPlatform cfg = Some b" and "Refs inp = []"
    and "map_of (Metadata inp) (ExporterPlatformsKey c) = None"
  shows "resolve c cfg inp = Inr (b, \<lparr>Platforms = []\<rparr>)"
  using assms by (simp add: resolve_def Let_def)

lemma resolve_override_empty:
  assumes "MultiPlatform cfg = Some b"
    and "map_of (Metadata inp) (ExporterPlatformsKey c) = Some []"
  shows "resolve c cfg inp = Inr (b, \<lparr>Platforms = []\<rparr>)"
  using assms by (simp add: resolve_def Let_def)

lemma resolve_override_parsed:
  assumes "MultiPlatform cfg = Some b"
    and "map_of (Metadata inp) (ExporterPlatformsKey c) = Some bs" and "bs \<noteq> []"
    and "Unmarshal c bs = Inr p"
  shows "resolve c cfg inp =
           (if \<not> b \<and> 1 < length (Platforms p) then Inl ErrMultiplePlatformsWithoutMap
            else Inr (b, p))"
  using assms by (simp add: resolve_def Let_def)

lemma sourceEpoch_cases:
  "sourceEpoch c inp e =
     (case Epoch (opts e) of
        Some t \<Rightarrow> (None, e)
      | None \<Rightarrow>
          (case ParseSource c inp of
             (tm, ok, Some err) \<Rightarrow> (Some err, e)
           | (tm, ok, None) \<Rightarrow> (None, if ok then e\<lparr>opts := (opts e)\<lparr>Epoch := tm\<rparr>\<rparr> else e)))"
  by (auto simp: sourceEpoch_def split: option.splits prod.splits)

lemma start_simps:
  "inst (start e) = e" "defers (start e) = []" "trace (start e) = []"
  by (simp_all add: start_def)

lemma compose_single_total:
  assumes "Refs inp = []"
  shows "compose c sid inp now isMap p s =
     (case CreateFS c (trace s) sid [] (Ref inp) [] [] now (opts (inst s)) of
        (fs, cln, err) \<Rightarrow>
          (let s1 = log (CallCreateFS sid [] (Ref inp) [] [] now (opts (inst s))
                      (fs, cln, err)) s
           in case err of
                Some x \<Rightarrow> (Inl x, s1)
              | None \<Rightarrow>
                  (Inr fs, case cln of Some f \<Rightarrow> s1\<lparr>defers := defers s1 @ [f]\<rparr> | None \<Rightarrow> s1)))"
  using assms
  by (auto simp: compose_def getDir_def Let_def split: prod.splits option.splits)

lemma Export_single_total:
  assumes "Refs inp = []" and se: "sourceEpoch c inp e = (None, e')"
    and re: "resolve c (opts e') inp = Inr (isMap, p)"
  shows "Export c e inp sid =
     (case CreateFS c [] sid [] (Ref inp) [] [] (Truncate_Second (Now c)) (opts e') of
        (fs, cln, err) \<Rightarrow>
          (let s1 = log (CallCreateFS sid [] (Ref inp) [] [] (Truncate_Second (Now c))
                      (opts e') (fs, cln, err)) (start e')
           in case err of
                Some x \<Rightarrow> (Some x, e', trace s1)
              | None \<Rightarrow>
                  (case deliver c sid fs
                          (case cln of Some f \<Rightarrow> s1\<lparr>defers := defers s1 @ [f]\<rparr> | None \<Rightarrow> s1) of
                     (r, s2) \<Rightarrow> (r, e', trace s2 @ map CallCleanup (rev (defers s2))))))"
proof -
  let ?now = "Truncate_Second (Now c)"
  obtain fs cln err where cr:
    "CreateFS c [] sid [] (Ref inp) [] [] ?now (opts e') = (fs, cln, err)"
    by (cases "CreateFS c [] sid [] (Ref inp) [] [] ?now (opts e')")
  show ?thesis
  proof (cases err)
    case (Some x)
    let ?s1 = "log (CallCreateFS sid [] (Ref inp) [] [] ?now (opts e') (fs, cln, Some x))
                 (start e')"
    from compose_single_total[OF assms(1), of c sid ?now isMap p "start e'"] cr Some
    have co: "compose c sid inp ?now isMap p (start e') = (Inl x, ?s1)"
      by (simp add: start_simps Let_def)
    from Export_compose_error[OF se re co] cr Some show ?thesis
      by (simp add: log_def start_simps collected_def Let_def)
  next
    case None
    let ?s1 = "log (CallCreateFS sid [] (Ref inp) [] [] ?now (opts e') (fs, cln, None))
                 (start e')"
    let ?s2 = "case cln of Some f \<Rightarrow> ?s1\<lparr>defers := defers ?s1 @ [f]\<rparr> | None \<Rightarrow> ?s1"
    from compose_single_total[OF assms(1), of c sid ?now isMap p "start e'"] cr None
    have co: "compose c sid inp ?now isMap p (start e') = (Inr fs, ?s2)"
      by (simp add: start_simps Let_def)
    obtain r s3 where d: "deliver c sid fs ?s2 = (r, s3)" by (cases "deliver c sid fs ?s2")
    from Export_delivered[OF se re co d] cr None d show ?thesis by (simp add: Let_def)
  qed
qed

lemma single_ref_conditional:
  assumes "Refs inp = []"
  shows "(\<forall>isMap p s fs s'. compose c sessionID inp now isMap p s = (Inr fs, s') \<longrightarrow>
            (\<exists>cln. CreateFS c (trace s) sessionID [] (Ref inp) [] [] now (opts (inst s)) =
                     (fs, cln, None) \<and>
                   trace s' = trace s @
                     [CallCreateFS sessionID [] (Ref inp) [] [] now (opts (inst s))
                        (fs, cln, None)])) \<and>
         (\<forall>r e' tr fs w werr. Export c e inp sessionID = (r, e', tr) \<longrightarrow>
            CallWriteTar fs w werr \<in> set tr \<longrightarrow>
            (\<exists>cln rest. CreateFS c [] sessionID [] (Ref inp) [] [] (Truncate_Second (Now c))
                          (opts e') = (fs, cln, None) \<and>
                        tr = CallCreateFS sessionID [] (Ref inp) [] []
                               (Truncate_Second (Now c)) (opts e') (fs, cln, None) # rest \<and>
                        materialized rest = []))"
proof (intro conjI allI impI)
  fix isMap p s fs s'
  assume co: "compose c sessionID inp now isMap p s = (Inr fs, s')"
  from compose_single[OF assms co] assms
  show "\<exists>cln. CreateFS c (trace s) sessionID [] (Ref inp) [] [] now (opts (inst s)) =
                     (fs, cln, None) \<and>
                   trace s' = trace s @
                     [CallCreateFS sessionID [] (Ref inp) [] [] now (opts (inst s))
                        (fs, cln, None)]"
    by (auto simp: createFSCall_def split: prod.splits option.splits)
next
  fix r e' tr fs w werr
  assume ex: "Export c e inp sessionID = (r, e', tr)"
    and wt: "CallWriteTar fs w werr \<in> set tr"
  let ?now = "Truncate_Second (Now c)"
  have tr: "tr = snd (snd (Export c e inp sessionID))"
    and e': "e' = snd (sourceEpoch c inp e)" using ex Export_inst[of c e inp sessionID] by simp_all
  show "\<exists>cln rest. CreateFS c [] sessionID [] (Ref inp) [] [] ?now (opts e') = (fs, cln, None) \<and>
           tr = CallCreateFS sessionID [] (Ref inp) [] [] ?now (opts e') (fs, cln, None) # rest \<and>
           materialized rest = []"
  proof (cases rule: Export_cases[of c inp e sessionID])
    case (epochErr err e1)
    with ex wt show ?thesis by simp
  next
    case (resolveErr err e1)
    with ex wt show ?thesis by simp
  next
    case (composeErr err e1 isMap p s1)
    from compose_single(1)[OF assms composeErr(3)]
    have t1: "trace s1 = [createFSCall c sessionID inp ?now [] (Ref inp) [] (start e1)]"
      by (simp add: start_def)
    from Export_after_one_call[OF composeErr(1,2,3) t1] tr wt
    show ?thesis by (auto simp: createFSCall_def)
  next
    case (delivered r1 e1 isMap p fs1 s1 s2)
    from compose_single[OF assms delivered(3)] assms
    have t1: "trace s1 = [createFSCall c sessionID inp ?now [] (Ref inp) [] (start e1)]"
      and c1: "\<exists>cln. CreateFS c [] sessionID [] (Ref inp) [] [] ?now (opts e1) = (fs1, cln, None)"
      by (auto simp: start_def split: prod.splits option.splits)
    from delivered(1) e' have e1: "e1 = e'" by simp
    from c1 e1 assms obtain cln where
      cln: "CreateFS c [] sessionID [] (Ref inp) [] [] ?now (opts e') = (fs1, cln, None)"
      by auto
    from Export_after_one_call[OF delivered(1,2,3) t1] tr obtain tail where
      tl: "tr = createFSCall c sessionID inp ?now [] (Ref inp) [] (start e1) # tail"
        "materialized tail = []"
        "\<forall>fs w werr. CallWriteTar fs w werr \<in> set tail \<longrightarrow> fs1 = fs"
      by auto
    from tl(1) wt have "CallWriteTar fs w werr \<in> set tail" by (simp add: createFSCall_def)
    with tl(3) have "fs1 = fs" by blast
    with cln tl(1,2) e1 assms show ?thesis by (simp add: createFSCall_def start_def)
  qed
qed

section \<open>The claims\<close>

text \<open>
  C1. When the multi-platform option is set and the checks of lines 139-151 pass (the
  platforms entry is found when there are mapped refs, and parses when it is not empty),
  lines 136-158 resolve map mode to the option's value, whatever the ref mapping and the
  platform count suggest, with the one exception of the error of line 157; set to true,
  the option rules that error out. Map mode is never resolved to false for a
  descriptor that lists more than one platform: when the
  descriptor parses to more than one platform and the option is set to false, the resolver
  fails with "unable to export multiple platforms without map", and a run of
  \<^verbatim>\<open>Export\<close> that gets past the epoch of lines 103-109 returns that error having
  made no call at all, so no directory was materialized.
\<close>

theorem override_decides_map_mode:
  "(\<forall>b. MultiPlatform cfg = Some b \<longrightarrow>
      (Refs inp = [] \<longrightarrow> map_of (Metadata inp) (ExporterPlatformsKey c) = None \<longrightarrow>
         resolve c cfg inp = Inr (b, \<lparr>Platforms = []\<rparr>)) \<and>
      (map_of (Metadata inp) (ExporterPlatformsKey c) = Some [] \<longrightarrow>
         resolve c cfg inp = Inr (b, \<lparr>Platforms = []\<rparr>)) \<and>
      (\<forall>bs p. map_of (Metadata inp) (ExporterPlatformsKey c) = Some bs \<longrightarrow> bs \<noteq> [] \<longrightarrow>
         Unmarshal c bs = Inr p \<longrightarrow>
         resolve c cfg inp =
           (if \<not> b \<and> 1 < length (Platforms p) then Inl ErrMultiplePlatformsWithoutMap
            else Inr (b, p))) \<and>
      (\<forall>isMap p. resolve c cfg inp = Inr (isMap, p) \<longrightarrow> isMap = b)) \<and>
   (MultiPlatform cfg = Some True \<longrightarrow> resolve c cfg inp \<noteq> Inl ErrMultiplePlatformsWithoutMap) \<and>
   (\<forall>isMap p. resolve c cfg inp = Inr (isMap, p) \<longrightarrow> 1 < length (Platforms p) \<longrightarrow> isMap) \<and>
   (\<forall>bs p. map_of (Metadata inp) (ExporterPlatformsKey c) = Some bs \<longrightarrow> bs \<noteq> [] \<longrightarrow>
       Unmarshal c bs = Inr p \<longrightarrow> 1 < length (Platforms p) \<longrightarrow>
       (MultiPlatform cfg = Some False \<longrightarrow> resolve c cfg inp = Inl ErrMultiplePlatformsWithoutMap) \<and>
       (\<forall>e e'. sourceEpoch c inp e = (None, e') \<longrightarrow> MultiPlatform (opts e) = Some False \<longrightarrow>
          Export c e inp sessionID = (Some ErrMultiplePlatformsWithoutMap, e', [])))"
proof (intro conjI allI impI)
  fix b
  assume "MultiPlatform cfg = Some b" "Refs inp = []"
    "map_of (Metadata inp) (ExporterPlatformsKey c) = None"
  then show "resolve c cfg inp = Inr (b, \<lparr>Platforms = []\<rparr>)"
    by (rule resolve_override_unlisted)
next
  fix b
  assume "MultiPlatform cfg = Some b" "map_of (Metadata inp) (ExporterPlatformsKey c) = Some []"
  then show "resolve c cfg inp = Inr (b, \<lparr>Platforms = []\<rparr>)"
    by (rule resolve_override_empty)
next
  fix b bs p
  assume "MultiPlatform cfg = Some b" "map_of (Metadata inp) (ExporterPlatformsKey c) = Some bs"
    "bs \<noteq> []" "Unmarshal c bs = Inr p"
  then show "resolve c cfg inp =
           (if \<not> b \<and> 1 < length (Platforms p) then Inl ErrMultiplePlatformsWithoutMap
            else Inr (b, p))"
    by (rule resolve_override_parsed)
next
  fix b isMap p
  assume "MultiPlatform cfg = Some b" "resolve c cfg inp = Inr (isMap, p)"
  then show "isMap = b" by (rule resolve_override_value)
next
  assume "MultiPlatform cfg = Some True"
  then show "resolve c cfg inp \<noteq> Inl ErrMultiplePlatformsWithoutMap"
    by (rule resolve_override_on)
next
  fix isMap p
  assume "resolve c cfg inp = Inr (isMap, p)" "1 < length (Platforms p)"
  then show isMap by (rule resolve_flat_single)
next
  fix bs p
  assume "map_of (Metadata inp) (ExporterPlatformsKey c) = Some bs" "bs \<noteq> []"
    "Unmarshal c bs = Inr p" "1 < length (Platforms p)" "MultiPlatform cfg = Some False"
  then show "resolve c cfg inp = Inl ErrMultiplePlatformsWithoutMap"
    using resolve_conflict by blast
next
  fix bs p e e'
  assume a: "map_of (Metadata inp) (ExporterPlatformsKey c) = Some bs" "bs \<noteq> []"
    "Unmarshal c bs = Inr p" "1 < length (Platforms p)"
    and se: "sourceEpoch c inp e = (None, e')" and m: "MultiPlatform (opts e) = Some False"
  from sourceEpoch_keeps(3)[OF se] m have "MultiPlatform (opts e') = Some False" by simp
  from resolve_conflict[OF this a] Export_resolve_error[OF se]
  show "Export c e inp sessionID = (Some ErrMultiplePlatformsWithoutMap, e', [])" by blast
qed

text \<open>The option set to true on a single ref, where the ref mapping and the platform
  count suggest false, and on mapped refs; the option set to false on mapped refs, where
  they suggest true; and the conflict.\<close>

theorem override_decides_map_mode_witness:
  "MultiPlatform (opts forced) = Some True \<and>
   Refs single = [] \<and> map_of (Metadata single) (ExporterPlatformsKey demo) = None \<and>
   resolve demo (opts plain) single = Inr (False, \<lparr>Platforms = []\<rparr>) \<and>
   resolve demo (opts forced) single = Inr (True, \<lparr>Platforms = []\<rparr>) \<and>
   map_of (Metadata (mapped ''amd64,arm64'')) (ExporterPlatformsKey demo) = Some ''amd64,arm64'' \<and>
   Unmarshal demo ''amd64,arm64'' = Inr \<lparr>Platforms = [amd64, arm64]\<rparr> \<and>
   resolve demo (opts forced) (mapped ''amd64,arm64'') =
     Inr (True, \<lparr>Platforms = [amd64, arm64]\<rparr>) \<and>
   MultiPlatform (opts flat) = Some False \<and>
   map_of (Metadata (mapped ''amd64'')) (ExporterPlatformsKey demo) = Some ''amd64'' \<and>
   Unmarshal demo ''amd64'' = Inr \<lparr>Platforms = [amd64]\<rparr> \<and>
   resolve demo (opts plain) (mapped ''amd64'') = Inr (True, \<lparr>Platforms = [amd64]\<rparr>) \<and>
   resolve demo (opts flat) (mapped ''amd64'') = Inr (False, \<lparr>Platforms = [amd64]\<rparr>) \<and>
   sourceEpoch demo (mapped ''amd64,arm64'') flat = (None, flat) \<and>
   resolve demo (opts flat) (mapped ''amd64,arm64'') = Inl ErrMultiplePlatformsWithoutMap \<and>
   Export demo flat (mapped ''amd64,arm64'') ''s'' = (Some ErrMultiplePlatformsWithoutMap, flat, [])"
proof -
  have mt: "MultiPlatform (opts forced) = Some True" by (simp add: forced_def)
  have m: "MultiPlatform (opts flat) = Some False" by (simp add: flat_def)
  have s0: "Refs single = []" "map_of (Metadata single) (ExporterPlatformsKey demo) = None"
    by (simp_all add: single_def)
  have k2: "map_of (Metadata (mapped ''amd64,arm64'')) (ExporterPlatformsKey demo) = Some ''amd64,arm64''"
    by (simp add: mapped_def demo_def)
  have u2: "Unmarshal demo ''amd64,arm64'' = Inr \<lparr>Platforms = [amd64, arm64]\<rparr>"
    by (simp add: demo_def)
  have n2: "''amd64,arm64'' \<noteq> []" by simp
  have k1: "map_of (Metadata (mapped ''amd64'')) (ExporterPlatformsKey demo) = Some ''amd64''"
    by (simp add: mapped_def demo_def)
  have u1: "Unmarshal demo ''amd64'' = Inr \<lparr>Platforms = [amd64]\<rparr>"
    by (simp add: demo_def)
  have n1: "''amd64'' \<noteq> []" by simp
  have se: "sourceEpoch demo (mapped ''amd64,arm64'') flat = (None, flat)"
    by (simp add: sourceEpoch_def demo_defs)
  have p0: "resolve demo (opts plain) single = Inr (False, \<lparr>Platforms = []\<rparr>)"
    by (simp add: resolve_def demo_defs)
  have p1: "resolve demo (opts plain) (mapped ''amd64'') = Inr (True, \<lparr>Platforms = [amd64]\<rparr>)"
    by (simp add: resolve_def demo_defs)
  from override_decides_map_mode[of "opts forced" single demo "''s''"] mt s0
  have r0: "resolve demo (opts forced) single = Inr (True, \<lparr>Platforms = []\<rparr>)" by blast
  from override_decides_map_mode[of "opts forced" "mapped ''amd64,arm64''" demo "''s''"] mt k2 n2 u2
  have "resolve demo (opts forced) (mapped ''amd64,arm64'') =
      (if \<not> True \<and> 1 < length (Platforms \<lparr>Platforms = [amd64, arm64]\<rparr>)
       then Inl ErrMultiplePlatformsWithoutMap
       else Inr (True, \<lparr>Platforms = [amd64, arm64]\<rparr>))" by blast
  then have r2: "resolve demo (opts forced) (mapped ''amd64,arm64'') =
     Inr (True, \<lparr>Platforms = [amd64, arm64]\<rparr>)" by simp
  from override_decides_map_mode[of "opts flat" "mapped ''amd64''" demo "''s''"] m k1 n1 u1
  have "resolve demo (opts flat) (mapped ''amd64'') =
      (if \<not> False \<and> 1 < length (Platforms \<lparr>Platforms = [amd64]\<rparr>)
       then Inl ErrMultiplePlatformsWithoutMap
       else Inr (False, \<lparr>Platforms = [amd64]\<rparr>))" by blast
  then have r1: "resolve demo (opts flat) (mapped ''amd64'') = Inr (False, \<lparr>Platforms = [amd64]\<rparr>)"
    by simp
  note t = override_decides_map_mode[of "opts flat" "mapped ''amd64,arm64''" demo "''s''"]
  from t m k2 u2 have c1: "resolve demo (opts flat) (mapped ''amd64,arm64'') = Inl ErrMultiplePlatformsWithoutMap"
    by simp
  from t m k2 u2 se
  have c2: "Export demo flat (mapped ''amd64,arm64'') ''s'' = (Some ErrMultiplePlatformsWithoutMap, flat, [])"
    by simp
  from mt m s0 k2 u2 k1 u1 se p0 p1 r0 r1 r2 c1 c2 show ?thesis by simp
qed

text \<open>
  C2, as amended. For a source with mapped refs whose first listed platform has a ref,
  composition with map mode false calls \<^verbatim>\<open>CreateFS\<close> once, on the first listed
  platform's id and ref, and on no other listed platform; its result is the handle the
  call returned, or the call's error. When \<^verbatim>\<open>Export\<close> resolves map mode to
  false for such a source, that platform is the only one listed, the call is the first of
  the log and the only \<^verbatim>\<open>CreateFS\<close> call in it, the filesystem given to
  \<^verbatim>\<open>WriteTar\<close> is the handle it returned, and its error, if any, is what
  \<^verbatim>\<open>Export\<close> returns.
\<close>

theorem flat_mode_first_platform_only:
  assumes "Refs inp \<noteq> []" and "Platforms p = q # rest"
    and "map_of (Refs inp) (ID q) = Some r"
  shows "(\<forall>now s res s'. compose c sessionID inp now False p s = (res, s') \<longrightarrow>
            trace s' = trace s @
              [CallCreateFS sessionID (ID q) r (Refs inp)
                 (case map_of (Attestations inp) (ID q) of None \<Rightarrow> [] | Some a \<Rightarrow> a)
                 now (opts (inst s))
                 (CreateFS c (trace s) sessionID (ID q) r (Refs inp)
                    (case map_of (Attestations inp) (ID q) of None \<Rightarrow> [] | Some a \<Rightarrow> a)
                    now (opts (inst s)))] \<and>
            res = (case CreateFS c (trace s) sessionID (ID q) r (Refs inp)
                          (case map_of (Attestations inp) (ID q) of None \<Rightarrow> [] | Some a \<Rightarrow> a)
                          now (opts (inst s)) of
                     (fs, cln, None) \<Rightarrow> Inr fs
                   | (fs, cln, Some err) \<Rightarrow> Inl err)) \<and>
         (\<forall>e e'. sourceEpoch c inp e = (None, e') \<longrightarrow>
            resolve c (opts e') inp = Inr (False, p) \<longrightarrow>
            rest = [] \<and>
            (\<exists>ans tail.
               ans = CreateFS c [] sessionID (ID q) r (Refs inp)
                       (case map_of (Attestations inp) (ID q) of None \<Rightarrow> [] | Some a \<Rightarrow> a)
                       (Truncate_Second (Now c)) (opts e') \<and>
               snd (snd (Export c e inp sessionID)) =
                 CallCreateFS sessionID (ID q) r (Refs inp)
                   (case map_of (Attestations inp) (ID q) of None \<Rightarrow> [] | Some a \<Rightarrow> a)
                   (Truncate_Second (Now c)) (opts e') ans # tail \<and>
               materialized tail = [] \<and>
               (\<forall>fs w werr. CallWriteTar fs w werr \<in> set tail \<longrightarrow>
                  fs = fst ans \<and> snd (snd ans) = None) \<and>
               (\<forall>err. snd (snd ans) = Some err \<longrightarrow>
                  fst (Export c e inp sessionID) = Some err)))"
proof (intro conjI allI impI)
  fix now s res s'
  assume co: "compose c sessionID inp now False p s = (res, s')"
  let ?a = "case map_of (Attestations inp) (ID q) of None \<Rightarrow> [] | Some a \<Rightarrow> a"
  from compose_flat_first(1)[OF assms co]
  show "trace s' = trace s @
          [CallCreateFS sessionID (ID q) r (Refs inp) ?a now (opts (inst s))
             (CreateFS c (trace s) sessionID (ID q) r (Refs inp) ?a now (opts (inst s)))]"
    by (simp add: createFSCall_def)
  from compose_flat_first(2)[OF assms co]
  show "res = (case CreateFS c (trace s) sessionID (ID q) r (Refs inp) ?a now (opts (inst s)) of
                 (fs, cln, None) \<Rightarrow> Inr fs
               | (fs, cln, Some err) \<Rightarrow> Inl err)" .
next
  fix e e'
  assume se: "sourceEpoch c inp e = (None, e')"
    and re: "resolve c (opts e') inp = Inr (False, p)"
  from resolve_flat_length[OF re] assms(2) show "rest = []" by simp
  let ?a = "case map_of (Attestations inp) (ID q) of None \<Rightarrow> [] | Some a \<Rightarrow> a"
  let ?now = "Truncate_Second (Now c)"
  let ?ans = "CreateFS c [] sessionID (ID q) r (Refs inp) ?a ?now (opts e')"
  let ?ev = "CallCreateFS sessionID (ID q) r (Refs inp) ?a ?now (opts e') ?ans"
  obtain res s1 where co: "compose c sessionID inp ?now False p (start e') = (res, s1)"
    by (cases "compose c sessionID inp ?now False p (start e')")
  from compose_flat_first[OF assms co]
  have t1: "trace s1 = [?ev]"
    and res: "res = (case ?ans of (fs, cln, None) \<Rightarrow> Inr fs | (fs, cln, Some err) \<Rightarrow> Inl err)"
    by (simp_all add: start_def createFSCall_def)
  from Export_after_one_call[OF se re co t1] obtain tail where
    tl: "snd (snd (Export c e inp sessionID)) = ?ev # tail" "materialized tail = []"
      "\<forall>fs w werr. CallWriteTar fs w werr \<in> set tail \<longrightarrow> res = Inr fs"
      "\<forall>err. res = Inl err \<longrightarrow> fst (Export c e inp sessionID) = Some err"
    by blast
  have w: "\<forall>fs w werr. CallWriteTar fs w werr \<in> set tail \<longrightarrow>
             fs = fst ?ans \<and> snd (snd ?ans) = None"
    using tl(3) res by (auto split: prod.splits option.splits)
  have x: "\<forall>err. snd (snd ?ans) = Some err \<longrightarrow> fst (Export c e inp sessionID) = Some err"
    using tl(4) res by (auto split: prod.splits option.splits)
  from tl(1,2) w x
  show "\<exists>ans tail.
               ans = ?ans \<and>
               snd (snd (Export c e inp sessionID)) =
                 CallCreateFS sessionID (ID q) r (Refs inp) ?a ?now (opts e') ans # tail \<and>
               materialized tail = [] \<and>
               (\<forall>fs w werr. CallWriteTar fs w werr \<in> set tail \<longrightarrow>
                  fs = fst ans \<and> snd (snd ans) = None) \<and>
               (\<forall>err. snd (snd ans) = Some err \<longrightarrow>
                  fst (Export c e inp sessionID) = Some err)"
    by blast
qed

theorem flat_mode_first_platform_only_witness:
  "Refs (mapped ''amd64'') \<noteq> [] \<and>
   Platforms \<lparr>Platforms = [amd64]\<rparr> = amd64 # [] \<and>
   map_of (Refs (mapped ''amd64'')) (ID amd64) = Some (RefId 1) \<and>
   sourceEpoch demo (mapped ''amd64'') flat = (None, flat) \<and>
   resolve demo (opts flat) (mapped ''amd64'') = Inr (False, \<lparr>Platforms = [amd64]\<rparr>) \<and>
   Export demo flat (mapped ''amd64'') ''s'' =
     (None, flat,
      [CallCreateFS ''s'' ''linux/amd64'' (RefId 1) (Refs (mapped ''amd64'')) []
         1700000000000000000 (opts flat) (FSHandle 0, Some (CleanupId 0), None),
       CallGet ''s'' False (CallerId 0, None),
       CallCopyFileWriter (CallerId 0) (WriterId 0, None),
       CallOneOff ''sending tarball'',
       CallWriteTar (FSHandle 0) (WriterId 0) None,
       CallClose (WriterId 0) None, CallReport None None, CallCancel,
       CallCleanup (CleanupId 0)]) \<and>
   (\<exists>tail. snd (snd (Export demo flat (mapped ''amd64'') ''s'')) =
             CallCreateFS ''s'' ''linux/amd64'' (RefId 1) (Refs (mapped ''amd64'')) []
               1700000000000000000 (opts flat) (FSHandle 0, Some (CleanupId 0), None) # tail \<and>
           materialized tail = [])"
proof -
  have a: "Refs (mapped ''amd64'') \<noteq> []" by (simp add: mapped_def)
  have b: "Platforms \<lparr>Platforms = [amd64]\<rparr> = amd64 # []" by simp
  have m: "map_of (Refs (mapped ''amd64'')) (ID amd64) = Some (RefId 1)"
    by (simp add: mapped_def amd64_def)
  have se: "sourceEpoch demo (mapped ''amd64'') flat = (None, flat)"
    by (simp add: sourceEpoch_def demo_defs)
  have re: "resolve demo (opts flat) (mapped ''amd64'') = Inr (False, \<lparr>Platforms = [amd64]\<rparr>)"
    by (simp add: resolve_def demo_defs)
  have e: "Export demo flat (mapped ''amd64'') ''s'' =
     (None, flat,
      [CallCreateFS ''s'' ''linux/amd64'' (RefId 1) (Refs (mapped ''amd64'')) []
         1700000000000000000 (opts flat) (FSHandle 0, Some (CleanupId 0), None),
       CallGet ''s'' False (CallerId 0, None),
       CallCopyFileWriter (CallerId 0) (WriterId 0, None),
       CallOneOff ''sending tarball'',
       CallWriteTar (FSHandle 0) (WriterId 0) None,
       CallClose (WriterId 0) None, CallReport None None, CallCancel,
       CallCleanup (CleanupId 0)])"
    by (simp add: stage_defs demo_defs Truncate_Second_def)
  from flat_mode_first_platform_only[OF a b m, of demo "''s''"] se re
  have "\<exists>ans tail.
          ans = CreateFS demo [] ''s'' (ID amd64) (RefId 1) (Refs (mapped ''amd64''))
                  (case map_of (Attestations (mapped ''amd64'')) (ID amd64) of
                     None \<Rightarrow> [] | Some a \<Rightarrow> a)
                  (Truncate_Second (Now demo)) (opts flat) \<and>
          snd (snd (Export demo flat (mapped ''amd64'') ''s'')) =
            CallCreateFS ''s'' (ID amd64) (RefId 1) (Refs (mapped ''amd64''))
              (case map_of (Attestations (mapped ''amd64'')) (ID amd64) of
                 None \<Rightarrow> [] | Some a \<Rightarrow> a)
              (Truncate_Second (Now demo)) (opts flat) ans # tail \<and>
          materialized tail = []"
    by blast
  then have "\<exists>tail. snd (snd (Export demo flat (mapped ''amd64'') ''s'')) =
             CallCreateFS ''s'' ''linux/amd64'' (RefId 1) (Refs (mapped ''amd64'')) []
               1700000000000000000 (opts flat) (FSHandle 0, Some (CleanupId 0), None) # tail \<and>
           materialized tail = []"
    by (simp add: demo_defs Truncate_Second_def)
  with a b m se re e show ?thesis by blast
qed

text \<open>The claim as stated fails. With the option switching map mode off, a source
  whose one listed platform has no ref passes the checks and returns at line 167, and a
  source that lists two platforms, with a ref for each, returns at line 157: in both runs
  no directory is materialized.\<close>

theorem flat_mode_without_materialization:
  "MultiPlatform (opts flat) = Some False \<and>
   Refs (amd64Only ''arm64'') \<noteq> [] \<and>
   resolve demo (opts flat) (amd64Only ''arm64'') = Inr (False, \<lparr>Platforms = [arm64]\<rparr>) \<and>
   Export demo flat (amd64Only ''arm64'') ''s'' =
     (Some (ErrMissingRef ''linux/arm64''), flat, []) \<and>
   Refs (mapped ''amd64,arm64'') \<noteq> [] \<and>
   Export demo flat (mapped ''amd64,arm64'') ''s'' =
     (Some ErrMultiplePlatformsWithoutMap, flat, [])"
  by (simp add: stage_defs demo_defs)

text \<open>
  C3, as amended. Let a source with mapped refs pass the checks of lines 103-158, and let
  \<open>q\<close> be the first listed platform without a ref. Then \<^verbatim>\<open>Export\<close> fails; its
  log holds \<^verbatim>\<open>CreateFS\<close> calls followed by the cleanups they left; the calls are
  for platforms listed before \<open>q\<close>, in order, each with its own ref; and when none of
  them failed, they are all the platforms before \<open>q\<close> and the error is "failed to find
  ref" for the id of \<open>q\<close>. No call is made when \<open>q\<close> is the first platform listed,
  and at least one is made otherwise.
\<close>

theorem missing_ref_after_earlier_platforms:
  assumes "sourceEpoch c inp e = (None, e')"
    and "resolve c (opts e') inp = Inr (isMap, p)"
    and "Refs inp \<noteq> []"
    and "Platforms p = pre @ q # post"
    and "\<forall>x\<in>set pre. map_of (Refs inp) (ID x) \<noteq> None"
    and "map_of (Refs inp) (ID q) = None"
  shows "\<exists>err evs.
           Export c e inp sessionID =
             (Some err, e', evs @ map CallCleanup (rev (collected evs))) \<and>
           list_all isCreateFS evs \<and>
           prefix (map (\<lambda>(k, r). (k, Some r)) (materialized evs))
                  (map (\<lambda>x. (ID x, map_of (Refs inp) (ID x))) pre) \<and>
           (filter failedCreateFS evs = [] \<longrightarrow>
              err = ErrMissingRef (ID q) \<and>
              map (\<lambda>(k, r). (k, Some r)) (materialized evs) =
                map (\<lambda>x. (ID x, map_of (Refs inp) (ID x))) pre) \<and>
           (pre = [] \<longrightarrow> err = ErrMissingRef (ID q) \<and> evs = []) \<and>
           (pre \<noteq> [] \<longrightarrow> evs \<noteq> [])"
proof -
  let ?now = "Truncate_Second (Now c)"
  have m: "isMap \<or> pre = []"
  proof (cases isMap)
    case False
    with resolve_flat_length[of c "opts e'" inp p] assms(2,4) show ?thesis by simp
  qed simp
  obtain res s1 where l:
    "platformLoop c sessionID inp ?now isMap (pre @ q # post) [] NilFS (start e') = (res, s1)"
    by (cases "platformLoop c sessionID inp ?now isMap (pre @ q # post) [] NilFS (start e')")
  from platformLoop_missing[OF assms(5,6) m l] obtain evs err where
    ev: "trace s1 = evs" "res = Inl err"
      "prefix (map (\<lambda>(k, r). (k, Some r)) (materialized evs))
              (map (\<lambda>x. (ID x, map_of (Refs inp) (ID x))) pre)"
      "filter failedCreateFS evs = [] \<longrightarrow>
              err = ErrMissingRef (ID q) \<and>
              map (\<lambda>(k, r). (k, Some r)) (materialized evs) =
                map (\<lambda>x. (ID x, map_of (Refs inp) (ID x))) pre"
    by (auto simp: start_def)
  from l ev(2) assms(3,4)
  have co: "compose c sessionID inp ?now isMap p (start e') = (Inl err, s1)"
    by (simp add: compose_def)
  from compose_calls[OF co] ev(1) have ca: "list_all isCreateFS evs"
    by (auto simp: extends_def start_def)
  from Export_compose_error[OF assms(1,2) co] ev(1)
  have ex: "Export c e inp sessionID =
             (Some err, e', evs @ map CallCleanup (rev (collected evs)))" by simp
  have first: "pre = [] \<longrightarrow> err = ErrMissingRef (ID q) \<and> evs = []"
  proof
    assume "pre = []"
    with ev(3) have "materialized evs = []" by simp
    with ca have "evs = []"
      by (cases evs; cases "hd evs") (auto simp: materialized_def)
    with ev(4) \<open>pre = []\<close> show "err = ErrMissingRef (ID q) \<and> evs = []" by simp
  qed
  have later: "pre \<noteq> [] \<longrightarrow> evs \<noteq> []"
  proof
    assume "pre \<noteq> []"
    show "evs \<noteq> []"
    proof (cases "filter failedCreateFS evs = []")
      case True
      with ev(4) \<open>pre \<noteq> []\<close> have "materialized evs \<noteq> []" by auto
      then show ?thesis by (auto simp: materialized_def)
    next
      case False
      then show ?thesis by auto
    qed
  qed
  from ex ca ev(3,4) first later show ?thesis by blast
qed

theorem missing_ref_after_earlier_platforms_witness:
  "sourceEpoch demo (amd64Only ''amd64,arm64'') plain = (None, plain) \<and>
   resolve demo (opts plain) (amd64Only ''amd64,arm64'') =
     Inr (True, \<lparr>Platforms = [amd64, arm64]\<rparr>) \<and>
   Refs (amd64Only ''amd64,arm64'') \<noteq> [] \<and>
   Platforms \<lparr>Platforms = [amd64, arm64]\<rparr> = [amd64] @ arm64 # [] \<and>
   map_of (Refs (amd64Only ''amd64,arm64'')) (ID amd64) \<noteq> None \<and>
   map_of (Refs (amd64Only ''amd64,arm64'')) (ID arm64) = None \<and>
   (\<exists>err evs.
      Export demo plain (amd64Only ''amd64,arm64'') ''s'' =
        (Some err, plain, evs @ map CallCleanup (rev (collected evs))) \<and>
      list_all isCreateFS evs \<and>
      prefix (map (\<lambda>(k, r). (k, Some r)) (materialized evs))
             (map (\<lambda>x. (ID x, map_of (Refs (amd64Only ''amd64,arm64'')) (ID x))) [amd64]))"
proof -
  have se: "sourceEpoch demo (amd64Only ''amd64,arm64'') plain = (None, plain)"
    by (simp add: sourceEpoch_def demo_defs)
  have re: "resolve demo (opts plain) (amd64Only ''amd64,arm64'') =
     Inr (True, \<lparr>Platforms = [amd64, arm64]\<rparr>)"
    by (simp add: resolve_def demo_defs)
  have a: "Refs (amd64Only ''amd64,arm64'') \<noteq> []" by (simp add: amd64Only_def)
  have b: "Platforms \<lparr>Platforms = [amd64, arm64]\<rparr> = [amd64] @ arm64 # []" by simp
  have h: "\<forall>x\<in>set [amd64]. map_of (Refs (amd64Only ''amd64,arm64'')) (ID x) \<noteq> None"
    by (simp add: amd64Only_def amd64_def)
  have n: "map_of (Refs (amd64Only ''amd64,arm64'')) (ID arm64) = None"
    by (simp add: amd64Only_def arm64_def)
  from missing_ref_after_earlier_platforms[OF se re a b h n, of "''s''"]
  have "\<exists>err evs.
      Export demo plain (amd64Only ''amd64,arm64'') ''s'' =
        (Some err, plain, evs @ map CallCleanup (rev (collected evs))) \<and>
      list_all isCreateFS evs \<and>
      prefix (map (\<lambda>(k, r). (k, Some r)) (materialized evs))
             (map (\<lambda>x. (ID x, map_of (Refs (amd64Only ''amd64,arm64'')) (ID x))) [amd64])"
    by blast
  with se re a b h n show ?thesis by simp
qed

text \<open>The claim as stated fails: the second listed platform has no ref, and the first
  has been materialized when the error is returned.\<close>

theorem missing_ref_after_one_materialization:
  "map_of (Refs (amd64Only ''amd64,arm64'')) ''linux/arm64'' = None \<and>
   resolve demo (opts plain) (amd64Only ''amd64,arm64'') =
     Inr (True, \<lparr>Platforms = [amd64, arm64]\<rparr>) \<and>
   Export demo plain (amd64Only ''amd64,arm64'') ''s'' =
     (Some (ErrMissingRef ''linux/arm64''), plain,
      [CallCreateFS ''s'' ''linux/amd64'' (RefId 1) [(''linux/amd64'', RefId 1)] []
         1700000000000000000 (opts plain) (FSHandle 0, Some (CleanupId 0), None),
       CallCleanup (CleanupId 0)]) \<and>
   materialized (snd (snd (Export demo plain (amd64Only ''amd64,arm64'') ''s''))) =
     [(''linux/amd64'', RefId 1)]"
  by (simp add: stage_defs demo_defs materialized_def Truncate_Second_def)

text \<open>
  C4. On every run of \<^verbatim>\<open>Export\<close>, whatever it returns, the log ends with the
  cleanup calls: the calls before them contain no cleanup, and the cleanups called are the
  obligations collected from the \<^verbatim>\<open>CreateFS\<close> calls of that run, each once, the
  last collected first.
\<close>

theorem Export_cleanups_reverse_once:
  "\<exists>body. snd (snd (Export c e inp sessionID)) = body @ map CallCleanup (rev (collected body))
     \<and> filter isCleanup body = []"
proof -
  have closing: "\<exists>body. snd (snd (Export c e inp sessionID)) =
                  body @ map CallCleanup (rev (collected body)) \<and> filter isCleanup body = []"
    if "snd (snd (Export c e inp sessionID)) = trace s @ map CallCleanup (rev (defers s))"
      and "extends (start e') s evs" for s e' evs
  proof -
    from that(2) have "trace s = evs" "defers s = collected evs"
      and body: "filter isCleanup evs = []"
      by (simp_all add: extends_def start_def)
    with that(1) have "snd (snd (Export c e inp sessionID)) =
        evs @ map CallCleanup (rev (collected evs))" by simp
    with body show ?thesis by blast
  qed
  show ?thesis
  proof (cases rule: Export_cases[of c inp e sessionID])
    case (epochErr err e')
    then have "snd (snd (Export c e inp sessionID)) = [] @ map CallCleanup (rev (collected []))"
      by (simp add: collected_def)
    then show ?thesis by (intro exI[of _ "[]"]) simp
  next
    case (resolveErr err e')
    then have "snd (snd (Export c e inp sessionID)) = [] @ map CallCleanup (rev (collected []))"
      by (simp add: collected_def)
    then show ?thesis by (intro exI[of _ "[]"]) simp
  next
    case (composeErr err e' isMap p s1)
    from compose_extends[OF composeErr(3)] obtain evs where "extends (start e') s1 evs" ..
    with composeErr(4) show ?thesis using closing[of s1 e' evs] by simp
  next
    case (delivered r e' isMap p fs s1 s2)
    from compose_extends[OF delivered(3)] obtain xs where "extends (start e') s1 xs" ..
    moreover from deliver_extends[OF delivered(4)] obtain ys where "extends s1 s2 ys" ..
    ultimately have "extends (start e') s2 (xs @ ys)" by (rule extends_trans)
    with delivered(5) show ?thesis using closing[of s2 e' "xs @ ys"] by simp
  qed
qed

text \<open>A run whose second materialization fails, after the first left a cleanup.\<close>

theorem Export_cleanups_reverse_once_witness:
  "Export flaky plain (mapped ''amd64,arm64'') ''s'' =
     (Some (ErrExternal ''no space left on device''), plain,
      [CallCreateFS ''s'' ''linux/amd64'' (RefId 1) (Refs (mapped ''amd64,arm64'')) []
         1700000000000000000 (opts plain) (FSHandle 0, Some (CleanupId 0), None),
       CallCreateFS ''s'' ''linux/arm64'' (RefId 2) (Refs (mapped ''amd64,arm64'')) []
         1700000000000000000 (opts plain)
         (NilFS, None, Some (ErrExternal ''no space left on device'')),
       CallCleanup (CleanupId 0)]) \<and>
   (\<exists>body. snd (snd (Export flaky plain (mapped ''amd64,arm64'') ''s'')) =
            body @ map CallCleanup (rev (collected body)) \<and> filter isCleanup body = [])"
proof -
  have "Export flaky plain (mapped ''amd64,arm64'') ''s'' =
     (Some (ErrExternal ''no space left on device''), plain,
      [CallCreateFS ''s'' ''linux/amd64'' (RefId 1) (Refs (mapped ''amd64,arm64'')) []
         1700000000000000000 (opts plain) (FSHandle 0, Some (CleanupId 0), None),
       CallCreateFS ''s'' ''linux/arm64'' (RefId 2) (Refs (mapped ''amd64,arm64'')) []
         1700000000000000000 (opts plain)
         (NilFS, None, Some (ErrExternal ''no space left on device'')),
       CallCleanup (CleanupId 0)])"
    by (simp add: stage_defs demo_defs flaky_def Truncate_Second_def)
  with Export_cleanups_reverse_once[of flaky plain "mapped ''amd64,arm64''" "''s''"]
  show ?thesis by blast
qed

text \<open>
  C5, as amended. For a source with at least one mapped ref and no platforms entry in its
  metadata, the resolver fails with "unable to export multiple refs, missing platforms
  mapping", for any number of refs from one up, and \<^verbatim>\<open>Export\<close> fails without
  making any call. The error \<^verbatim>\<open>Export\<close> returns is this one when the epoch
  option is set, or when \<^verbatim>\<open>epoch.ParseSource\<close> returns no error; when the option
  is unset and \<^verbatim>\<open>epoch.ParseSource\<close> returns an error, lines 103-105 return that
  error first.
\<close>

theorem missing_platforms_mapping:
  assumes "Refs inp \<noteq> []" and "map_of (Metadata inp) (ExporterPlatformsKey c) = None"
  shows "resolve c cfg inp = Inl ErrMissingPlatformsMapping \<and>
         fst (Export c e inp sessionID) \<noteq> None \<and>
         snd (snd (Export c e inp sessionID)) = [] \<and>
         (fst (sourceEpoch c inp e) = None \<longrightarrow>
            Export c e inp sessionID =
              (Some ErrMissingPlatformsMapping, snd (sourceEpoch c inp e), [])) \<and>
         (\<forall>t. Epoch (opts e) = Some t \<longrightarrow>
            Export c e inp sessionID = (Some ErrMissingPlatformsMapping, e, [])) \<and>
         (\<forall>tm ok. Epoch (opts e) = None \<longrightarrow> ParseSource c inp = (tm, ok, None) \<longrightarrow>
            fst (Export c e inp sessionID) = Some ErrMissingPlatformsMapping) \<and>
         (\<forall>tm ok err. Epoch (opts e) = None \<longrightarrow> ParseSource c inp = (tm, ok, Some err) \<longrightarrow>
            Export c e inp sessionID = (Some err, e, []))"
proof -
  have r: "resolve c cfg inp = Inl ErrMissingPlatformsMapping" for cfg
    using assms by (simp add: resolve_def Let_def)
  have ok: "Export c e inp sessionID = (Some ErrMissingPlatformsMapping, e', [])"
    if "sourceEpoch c inp e = (None, e')" for e'
    using Export_resolve_error[OF that r] .
  have bad: "Export c e inp sessionID = (Some err, e', [])"
    if "sourceEpoch c inp e = (Some err, e')" for err e'
    using Export_epoch_error[OF that] .
  have 1: "fst (Export c e inp sessionID) \<noteq> None \<and> snd (snd (Export c e inp sessionID)) = [] \<and>
         (fst (sourceEpoch c inp e) = None \<longrightarrow>
            Export c e inp sessionID =
              (Some ErrMissingPlatformsMapping, snd (sourceEpoch c inp e), []))"
  proof (cases "sourceEpoch c inp e")
    case (Pair r0 e')
    then show ?thesis using ok[of e'] bad[of _ e'] by (cases r0) auto
  qed
  have 2: "\<forall>t. Epoch (opts e) = Some t \<longrightarrow>
            Export c e inp sessionID = (Some ErrMissingPlatformsMapping, e, [])"
    using ok[of e] by (auto simp: sourceEpoch_cases)
  have 3: "\<forall>tm ok. Epoch (opts e) = None \<longrightarrow> ParseSource c inp = (tm, ok, None) \<longrightarrow>
            fst (Export c e inp sessionID) = Some ErrMissingPlatformsMapping"
  proof (intro allI impI)
    fix tm k
    assume "Epoch (opts e) = None" "ParseSource c inp = (tm, k, None)"
    then have "sourceEpoch c inp e =
        (None, if k then e\<lparr>opts := (opts e)\<lparr>Epoch := tm\<rparr>\<rparr> else e)"
      by (simp add: sourceEpoch_cases)
    from ok[OF this] show "fst (Export c e inp sessionID) = Some ErrMissingPlatformsMapping"
      by simp
  qed
  have 4: "\<forall>tm ok err. Epoch (opts e) = None \<longrightarrow> ParseSource c inp = (tm, ok, Some err) \<longrightarrow>
            Export c e inp sessionID = (Some err, e, [])"
  proof (intro allI impI)
    fix tm k err
    assume "Epoch (opts e) = None" "ParseSource c inp = (tm, k, Some err)"
    then have "sourceEpoch c inp e = (Some err, e)" by (simp add: sourceEpoch_cases)
    from bad[OF this] show "Export c e inp sessionID = (Some err, e, [])" .
  qed
  from r 1 2 3 4 show ?thesis by blast
qed

theorem missing_platforms_mapping_witness:
  "Refs unlisted \<noteq> [] \<and> length (Refs unlisted) = 1 \<and>
   map_of (Metadata unlisted) (ExporterPlatformsKey demo) = None \<and>
   fst (sourceEpoch demo unlisted plain) = None \<and>
   resolve demo (opts plain) unlisted = Inl ErrMissingPlatformsMapping \<and>
   Export demo plain unlisted ''s'' = (Some ErrMissingPlatformsMapping, plain, []) \<and>
   Refs misdated \<noteq> [] \<and>
   map_of (Metadata misdated) (ExporterPlatformsKey demo) = None \<and>
   Epoch (opts stamped) = Some 86400000000000 \<and>
   Export demo stamped misdated ''s'' = (Some ErrMissingPlatformsMapping, stamped, []) \<and>
   Epoch (opts plain) = None \<and>
   ParseSource demo misdated = (None, False, Some (ErrExternal ''invalid SOURCE_DATE_EPOCH'')) \<and>
   Export demo plain misdated ''s'' = (Some (ErrExternal ''invalid SOURCE_DATE_EPOCH''), plain, [])"
proof -
  have a: "Refs unlisted \<noteq> []" "length (Refs unlisted) = 1"
    "map_of (Metadata unlisted) (ExporterPlatformsKey demo) = None"
    by (simp_all add: unlisted_def)
  have se: "sourceEpoch demo unlisted plain = (None, plain)"
    by (simp add: sourceEpoch_def demo_defs)
  have b: "Refs misdated \<noteq> []" "map_of (Metadata misdated) (ExporterPlatformsKey demo) = None"
    by (simp_all add: misdated_def demo_def)
  have st: "Epoch (opts stamped) = Some 86400000000000" by (simp add: stamped_def)
  have pl: "Epoch (opts plain) = None" by (simp add: plain_def)
  have ps: "ParseSource demo misdated =
      (None, False, Some (ErrExternal ''invalid SOURCE_DATE_EPOCH''))"
    by (simp add: demo_def misdated_def)
  from missing_platforms_mapping[OF a(1) a(3), of "opts plain" plain "''s''"] a se
  have 1: "resolve demo (opts plain) unlisted = Inl ErrMissingPlatformsMapping \<and>
    Export demo plain unlisted ''s'' = (Some ErrMissingPlatformsMapping, plain, [])" by simp
  from missing_platforms_mapping[OF b, of "opts stamped" stamped "''s''"] st
  have 2: "Export demo stamped misdated ''s'' = (Some ErrMissingPlatformsMapping, stamped, [])"
    by blast
  from missing_platforms_mapping[OF b, of "opts plain" plain "''s''"] pl ps
  have 3: "Export demo plain misdated ''s'' =
      (Some (ErrExternal ''invalid SOURCE_DATE_EPOCH''), plain, [])" by blast
  from a se b st pl ps 1 2 3 show ?thesis by simp
qed

text \<open>The claim as stated fails: on an instance without an epoch, a source with a
  mapped ref, no platforms entry and an epoch entry that does not parse gets the error of
  the epoch, not the error of the missing platforms.\<close>

theorem epoch_error_before_missing_platforms:
  "Refs misdated \<noteq> [] \<and>
   map_of (Metadata misdated) (ExporterPlatformsKey demo) = None \<and>
   Epoch (opts plain) = None \<and>
   Export demo plain misdated ''s'' =
     (Some (ErrExternal ''invalid SOURCE_DATE_EPOCH''), plain, []) \<and>
   ErrExternal ''invalid SOURCE_DATE_EPOCH'' \<noteq> ErrMissingPlatformsMapping"
  by (simp add: stage_defs demo_defs misdated_def)

text \<open>
  C6. For a source without mapped refs, composition is one call, \<^verbatim>\<open>CreateFS\<close>
  on the single ref under the empty key with no attestations, whatever the map mode: it
  returns the handle of that call, or its error. A run of \<^verbatim>\<open>Export\<close> that
  passes the checks of lines 103-158 logs that call first and hands the handle it
  returned, as it is, to the delivery of lines 194-211, for every value of the
  multi-platform option; when the call fails, \<^verbatim>\<open>Export\<close> returns its error.
  So the filesystem given to \<^verbatim>\<open>WriteTar\<close> in any run is the handle returned by
  that call, the only \<^verbatim>\<open>CreateFS\<close> call in the log.
\<close>

theorem single_ref_alias:
  assumes "Refs inp = []"
  shows "(\<forall>now isMap p s.
            compose c sessionID inp now isMap p s =
              (case CreateFS c (trace s) sessionID [] (Ref inp) [] [] now (opts (inst s)) of
                 (fs, cln, err) \<Rightarrow>
                   (let s1 = log (CallCreateFS sessionID [] (Ref inp) [] [] now (opts (inst s))
                               (fs, cln, err)) s
                    in case err of
                         Some x \<Rightarrow> (Inl x, s1)
                       | None \<Rightarrow>
                           (Inr fs,
                            case cln of
                              Some f \<Rightarrow> s1\<lparr>defers := defers s1 @ [f]\<rparr>
                            | None \<Rightarrow> s1)))) \<and>
         (\<forall>e' isMap p. sourceEpoch c inp e = (None, e') \<longrightarrow>
            resolve c (opts e') inp = Inr (isMap, p) \<longrightarrow>
            Export c e inp sessionID =
              (case CreateFS c [] sessionID [] (Ref inp) [] [] (Truncate_Second (Now c))
                      (opts e') of
                 (fs, cln, err) \<Rightarrow>
                   (let s1 = log (CallCreateFS sessionID [] (Ref inp) [] []
                               (Truncate_Second (Now c)) (opts e') (fs, cln, err)) (start e')
                    in case err of
                         Some x \<Rightarrow> (Some x, e', trace s1)
                       | None \<Rightarrow>
                           (case deliver c sessionID fs
                                   (case cln of
                                      Some f \<Rightarrow> s1\<lparr>defers := defers s1 @ [f]\<rparr>
                                    | None \<Rightarrow> s1) of
                              (r, s2) \<Rightarrow>
                                (r, e', trace s2 @ map CallCleanup (rev (defers s2))))))) \<and>
         (\<forall>now isMap p s fs s'. compose c sessionID inp now isMap p s = (Inr fs, s') \<longrightarrow>
            (\<exists>cln. CreateFS c (trace s) sessionID [] (Ref inp) [] [] now (opts (inst s)) =
                     (fs, cln, None) \<and>
                   trace s' = trace s @
                     [CallCreateFS sessionID [] (Ref inp) [] [] now (opts (inst s))
                        (fs, cln, None)])) \<and>
         (\<forall>r e' tr fs w werr. Export c e inp sessionID = (r, e', tr) \<longrightarrow>
            CallWriteTar fs w werr \<in> set tr \<longrightarrow>
            (\<exists>cln rest. CreateFS c [] sessionID [] (Ref inp) [] [] (Truncate_Second (Now c))
                          (opts e') = (fs, cln, None) \<and>
                        tr = CallCreateFS sessionID [] (Ref inp) [] []
                               (Truncate_Second (Now c)) (opts e') (fs, cln, None) # rest \<and>
                        materialized rest = []))"
proof (intro conjI)
  show "\<forall>now isMap p s.
            compose c sessionID inp now isMap p s =
              (case CreateFS c (trace s) sessionID [] (Ref inp) [] [] now (opts (inst s)) of
                 (fs, cln, err) \<Rightarrow>
                   (let s1 = log (CallCreateFS sessionID [] (Ref inp) [] [] now (opts (inst s))
                               (fs, cln, err)) s
                    in case err of
                         Some x \<Rightarrow> (Inl x, s1)
                       | None \<Rightarrow>
                           (Inr fs,
                            case cln of
                              Some f \<Rightarrow> s1\<lparr>defers := defers s1 @ [f]\<rparr>
                            | None \<Rightarrow> s1)))"
    using compose_single_total[OF assms] by blast
  show "\<forall>e' isMap p. sourceEpoch c inp e = (None, e') \<longrightarrow>
            resolve c (opts e') inp = Inr (isMap, p) \<longrightarrow>
            Export c e inp sessionID =
              (case CreateFS c [] sessionID [] (Ref inp) [] [] (Truncate_Second (Now c))
                      (opts e') of
                 (fs, cln, err) \<Rightarrow>
                   (let s1 = log (CallCreateFS sessionID [] (Ref inp) [] []
                               (Truncate_Second (Now c)) (opts e') (fs, cln, err)) (start e')
                    in case err of
                         Some x \<Rightarrow> (Some x, e', trace s1)
                       | None \<Rightarrow>
                           (case deliver c sessionID fs
                                   (case cln of
                                      Some f \<Rightarrow> s1\<lparr>defers := defers s1 @ [f]\<rparr>
                                    | None \<Rightarrow> s1) of
                              (r, s2) \<Rightarrow>
                                (r, e', trace s2 @ map CallCleanup (rev (defers s2))))))"
    using Export_single_total[OF assms] by blast
  from single_ref_conditional[OF assms, of c sessionID _ e]
  show "\<forall>now isMap p s fs s'. compose c sessionID inp now isMap p s = (Inr fs, s') \<longrightarrow>
            (\<exists>cln. CreateFS c (trace s) sessionID [] (Ref inp) [] [] now (opts (inst s)) =
                     (fs, cln, None) \<and>
                   trace s' = trace s @
                     [CallCreateFS sessionID [] (Ref inp) [] [] now (opts (inst s))
                        (fs, cln, None)])"
    by blast
  from single_ref_conditional[OF assms, of c sessionID 0 e]
  show "\<forall>r e' tr fs w werr. Export c e inp sessionID = (r, e', tr) \<longrightarrow>
            CallWriteTar fs w werr \<in> set tr \<longrightarrow>
            (\<exists>cln rest. CreateFS c [] sessionID [] (Ref inp) [] [] (Truncate_Second (Now c))
                          (opts e') = (fs, cln, None) \<and>
                        tr = CallCreateFS sessionID [] (Ref inp) [] []
                               (Truncate_Second (Now c)) (opts e') (fs, cln, None) # rest \<and>
                        materialized rest = [])"
    by blast
qed

text \<open>The option unset, set to false and set to true.\<close>

theorem single_ref_alias_witness:
  "Refs single = [] \<and>
   sourceEpoch demo single plain = (None, plain) \<and>
   resolve demo (opts plain) single = Inr (False, \<lparr>Platforms = []\<rparr>) \<and>
   sourceEpoch demo single flat = (None, flat) \<and>
   resolve demo (opts flat) single = Inr (False, \<lparr>Platforms = []\<rparr>) \<and>
   sourceEpoch demo single forced = (None, forced) \<and>
   resolve demo (opts forced) single = Inr (True, \<lparr>Platforms = []\<rparr>) \<and>
   CreateFS demo [] ''s'' [] (Ref single) [] [] (Truncate_Second (Now demo)) (opts forced) =
     (FSHandle 0, Some (CleanupId 0), None) \<and>
   Export demo plain single ''s'' =
     (None, plain,
      [CallCreateFS ''s'' [] (RefId 7) [] [] 1700000000000000000 (opts plain)
         (FSHandle 0, Some (CleanupId 0), None),
       CallGet ''s'' False (CallerId 0, None),
       CallCopyFileWriter (CallerId 0) (WriterId 0, None),
       CallOneOff ''sending tarball'',
       CallWriteTar (FSHandle 0) (WriterId 0) None,
       CallClose (WriterId 0) None, CallReport None None, CallCancel,
       CallCleanup (CleanupId 0)]) \<and>
   Export demo flat single ''s'' =
     (None, flat,
      [CallCreateFS ''s'' [] (RefId 7) [] [] 1700000000000000000 (opts flat)
         (FSHandle 0, Some (CleanupId 0), None),
       CallGet ''s'' False (CallerId 0, None),
       CallCopyFileWriter (CallerId 0) (WriterId 0, None),
       CallOneOff ''sending tarball'',
       CallWriteTar (FSHandle 0) (WriterId 0) None,
       CallClose (WriterId 0) None, CallReport None None, CallCancel,
       CallCleanup (CleanupId 0)]) \<and>
   Export demo forced single ''s'' =
     (None, forced,
      [CallCreateFS ''s'' [] (RefId 7) [] [] 1700000000000000000 (opts forced)
         (FSHandle 0, Some (CleanupId 0), None),
       CallGet ''s'' False (CallerId 0, None),
       CallCopyFileWriter (CallerId 0) (WriterId 0, None),
       CallOneOff ''sending tarball'',
       CallWriteTar (FSHandle 0) (WriterId 0) None,
       CallClose (WriterId 0) None, CallReport None None, CallCancel,
       CallCleanup (CleanupId 0)])"
proof -
  have a: "Refs single = []" by (simp add: single_def)
  have sp: "sourceEpoch demo single plain = (None, plain)"
    and sf: "sourceEpoch demo single flat = (None, flat)"
    and so: "sourceEpoch demo single forced = (None, forced)"
    by (simp_all add: sourceEpoch_def demo_defs)
  have rp: "resolve demo (opts plain) single = Inr (False, \<lparr>Platforms = []\<rparr>)"
    and rf: "resolve demo (opts flat) single = Inr (False, \<lparr>Platforms = []\<rparr>)"
    and ro: "resolve demo (opts forced) single = Inr (True, \<lparr>Platforms = []\<rparr>)"
    by (simp_all add: resolve_def demo_defs)
  have cr: "CreateFS demo [] ''s'' [] (Ref single) [] [] (Truncate_Second (Now demo))
      (opts forced) = (FSHandle 0, Some (CleanupId 0), None)"
    by (simp add: demo_def)
  note run = deliver_def sendTar_def log_def Let_def demo_defs Truncate_Second_def
  from single_ref_alias[OF a, of demo "''s''" plain] sp rp
  have "Export demo plain single ''s'' =
      (case CreateFS demo [] ''s'' [] (Ref single) [] [] (Truncate_Second (Now demo))
              (opts plain) of
         (fs, cln, err) \<Rightarrow>
           (let s1 = log (CallCreateFS ''s'' [] (Ref single) [] []
                       (Truncate_Second (Now demo)) (opts plain) (fs, cln, err)) (start plain)
            in case err of
                 Some x \<Rightarrow> (Some x, plain, trace s1)
               | None \<Rightarrow>
                   (case deliver demo ''s'' fs
                           (case cln of
                              Some f \<Rightarrow> s1\<lparr>defers := defers s1 @ [f]\<rparr>
                            | None \<Rightarrow> s1) of
                      (r, s2) \<Rightarrow>
                        (r, plain, trace s2 @ map CallCleanup (rev (defers s2))))))"
    by blast
  then have ep: "Export demo plain single ''s'' =
     (None, plain,
      [CallCreateFS ''s'' [] (RefId 7) [] [] 1700000000000000000 (opts plain)
         (FSHandle 0, Some (CleanupId 0), None),
       CallGet ''s'' False (CallerId 0, None),
       CallCopyFileWriter (CallerId 0) (WriterId 0, None),
       CallOneOff ''sending tarball'',
       CallWriteTar (FSHandle 0) (WriterId 0) None,
       CallClose (WriterId 0) None, CallReport None None, CallCancel,
       CallCleanup (CleanupId 0)])"
    by (simp add: run)
  from single_ref_alias[OF a, of demo "''s''" flat] sf rf
  have "Export demo flat single ''s'' =
      (case CreateFS demo [] ''s'' [] (Ref single) [] [] (Truncate_Second (Now demo))
              (opts flat) of
         (fs, cln, err) \<Rightarrow>
           (let s1 = log (CallCreateFS ''s'' [] (Ref single) [] []
                       (Truncate_Second (Now demo)) (opts flat) (fs, cln, err)) (start flat)
            in case err of
                 Some x \<Rightarrow> (Some x, flat, trace s1)
               | None \<Rightarrow>
                   (case deliver demo ''s'' fs
                           (case cln of
                              Some f \<Rightarrow> s1\<lparr>defers := defers s1 @ [f]\<rparr>
                            | None \<Rightarrow> s1) of
                      (r, s2) \<Rightarrow>
                        (r, flat, trace s2 @ map CallCleanup (rev (defers s2))))))"
    by blast
  then have ef: "Export demo flat single ''s'' =
     (None, flat,
      [CallCreateFS ''s'' [] (RefId 7) [] [] 1700000000000000000 (opts flat)
         (FSHandle 0, Some (CleanupId 0), None),
       CallGet ''s'' False (CallerId 0, None),
       CallCopyFileWriter (CallerId 0) (WriterId 0, None),
       CallOneOff ''sending tarball'',
       CallWriteTar (FSHandle 0) (WriterId 0) None,
       CallClose (WriterId 0) None, CallReport None None, CallCancel,
       CallCleanup (CleanupId 0)])"
    by (simp add: run)
  from single_ref_alias[OF a, of demo "''s''" forced] so ro
  have "Export demo forced single ''s'' =
      (case CreateFS demo [] ''s'' [] (Ref single) [] [] (Truncate_Second (Now demo))
              (opts forced) of
         (fs, cln, err) \<Rightarrow>
           (let s1 = log (CallCreateFS ''s'' [] (Ref single) [] []
                       (Truncate_Second (Now demo)) (opts forced) (fs, cln, err)) (start forced)
            in case err of
                 Some x \<Rightarrow> (Some x, forced, trace s1)
               | None \<Rightarrow>
                   (case deliver demo ''s'' fs
                           (case cln of
                              Some f \<Rightarrow> s1\<lparr>defers := defers s1 @ [f]\<rparr>
                            | None \<Rightarrow> s1) of
                      (r, s2) \<Rightarrow>
                        (r, forced, trace s2 @ map CallCleanup (rev (defers s2))))))"
    by blast
  then have eo: "Export demo forced single ''s'' =
     (None, forced,
      [CallCreateFS ''s'' [] (RefId 7) [] [] 1700000000000000000 (opts forced)
         (FSHandle 0, Some (CleanupId 0), None),
       CallGet ''s'' False (CallerId 0, None),
       CallCopyFileWriter (CallerId 0) (WriterId 0, None),
       CallOneOff ''sending tarball'',
       CallWriteTar (FSHandle 0) (WriterId 0) None,
       CallClose (WriterId 0) None, CallReport None None, CallCancel,
       CallCleanup (CleanupId 0)])"
    by (simp add: run)
  from a sp rp sf rf so ro cr ep ef eo show ?thesis by blast
qed

text \<open>
  C7. In every run of \<^verbatim>\<open>Export\<close> in which the write sink was opened
  (\<^verbatim>\<open>CopyFileWriter\<close> returned it without an error), the log continues with the
  progress report being opened, \<^verbatim>\<open>WriteTar\<close> on that sink, and the closing of
  that sink, before the report is finished and the function returns. The error handed to
  the progress reporter, whose answer \<^verbatim>\<open>Export\<close> returns, is the error of
  \<^verbatim>\<open>WriteTar\<close> when it failed, whatever the closing returned, and the result of
  the closing when \<^verbatim>\<open>WriteTar\<close> succeeded.
\<close>

theorem sink_closed_and_error_surfaced:
  assumes "Export c e inp sessionID = (r, e', tr)"
    and "CallCopyFileWriter caller (w, None) \<in> set tr"
  shows "\<exists>pre fs werr cerr cleanups.
           tr = pre @ [CallCopyFileWriter caller (w, None), CallOneOff ''sending tarball'',
                       CallWriteTar fs w werr, CallClose w cerr,
                       CallReport (case werr of Some err \<Rightarrow> Some err | None \<Rightarrow> cerr) r,
                       CallCancel] @ map CallCleanup cleanups \<and>
           werr = WriteTar c (pre @ [CallCopyFileWriter caller (w, None),
                                    CallOneOff ''sending tarball'']) fs w \<and>
           cerr = Close c (pre @ [CallCopyFileWriter caller (w, None),
                                 CallOneOff ''sending tarball'', CallWriteTar fs w werr]) w \<and>
           r = report c (pre @ [CallCopyFileWriter caller (w, None),
                                CallOneOff ''sending tarball'', CallWriteTar fs w werr,
                                CallClose w cerr])
                 (case werr of Some err \<Rightarrow> Some err | None \<Rightarrow> cerr)"
proof (cases rule: Export_cases[of c inp e sessionID])
  case (epochErr err e1)
  with assms show ?thesis by simp
next
  case (resolveErr err e1)
  with assms show ?thesis by simp
next
  case (composeErr err e1 isMap p s1)
  from compose_calls[OF composeErr(3)] obtain evs where
    evs: "trace s1 = evs" "list_all isCreateFS evs" by (auto simp: extends_def start_def)
  have "CallCopyFileWriter caller (w, None) \<notin> set evs"
    using evs(2) by (rule not_in_createFS_calls) simp
  moreover from assms composeErr(4) evs(1)
  have "CallCopyFileWriter caller (w, None) \<in> set evs" by auto
  ultimately show ?thesis by contradiction
next
  case (delivered r1 e1 isMap p fs s1 s2)
  from compose_calls[OF delivered(3)] obtain evs where
    evs: "trace s1 = evs" "list_all isCreateFS evs" by (auto simp: extends_def start_def)
  have notin: "CallCopyFileWriter caller (w, None) \<notin> set evs"
    using evs(2) by (auto simp: list_all_iff)
  from assms delivered(5) have r: "r = r1"
    and tr: "tr = trace s2 @ map CallCleanup (rev (defers s2))" by simp_all
  show ?thesis
  proof (cases rule: deliver_cases[of c s1 sessionID fs])
    case (getErr caller1 err)
    with delivered(4) assms(2) tr evs notin have False by auto
    then show ?thesis ..
  next
    case (openErr caller1 w1 err)
    with delivered(4) assms(2) tr evs notin have False by auto
    then show ?thesis ..
  next
    case (sent caller1 w1 werr cerr r2)
    from sent(6) delivered(4) have r2: "r2 = r1" and
      s2: "trace s2 = evs @ [CallGet sessionID False (caller1, None),
               CallCopyFileWriter caller1 (w1, None), CallOneOff ''sending tarball'',
               CallWriteTar fs w1 werr, CallClose w1 cerr,
               CallReport (case werr of Some err \<Rightarrow> Some err | None \<Rightarrow> cerr) r2, CallCancel]"
      using evs(1) by auto
    from assms(2) tr s2 notin have same: "caller1 = caller" "w1 = w" by auto
    let ?pre = "evs @ [CallGet sessionID False (caller, None)]"
    have "tr = ?pre @ [CallCopyFileWriter caller (w, None), CallOneOff ''sending tarball'',
                       CallWriteTar fs w werr, CallClose w cerr,
                       CallReport (case werr of Some err \<Rightarrow> Some err | None \<Rightarrow> cerr) r,
                       CallCancel] @ map CallCleanup (rev (defers s2))"
      using tr s2 same r r2 by simp
    moreover have "werr = WriteTar c (?pre @ [CallCopyFileWriter caller (w, None),
                                    CallOneOff ''sending tarball'']) fs w"
      using sent(3) same evs(1) by simp
    moreover have "cerr = Close c (?pre @ [CallCopyFileWriter caller (w, None),
                                 CallOneOff ''sending tarball'', CallWriteTar fs w werr]) w"
      using sent(4) same evs(1) by simp
    moreover have "r = report c (?pre @ [CallCopyFileWriter caller (w, None),
                                CallOneOff ''sending tarball'', CallWriteTar fs w werr,
                                CallClose w cerr])
                 (case werr of Some err \<Rightarrow> Some err | None \<Rightarrow> cerr)"
      using sent(5) same evs(1) r r2 by simp
    ultimately show ?thesis by blast
  qed
qed

theorem sink_closed_and_error_surfaced_witness:
  "Export broken plain single ''s'' =
     (Some (ErrExternal ''write''), plain,
      [CallCreateFS ''s'' [] (RefId 7) [] [] 1700000000000000000 (opts plain)
         (FSHandle 0, Some (CleanupId 0), None),
       CallGet ''s'' False (CallerId 0, None),
       CallCopyFileWriter (CallerId 0) (WriterId 0, None),
       CallOneOff ''sending tarball'',
       CallWriteTar (FSHandle 0) (WriterId 0) (Some (ErrExternal ''write'')),
       CallClose (WriterId 0) (Some (ErrExternal ''close'')),
       CallReport (Some (ErrExternal ''write'')) (Some (ErrExternal ''write'')),
       CallCancel, CallCleanup (CleanupId 0)]) \<and>
   (\<exists>pre fs werr cerr cleanups.
      [CallCreateFS ''s'' [] (RefId 7) [] [] 1700000000000000000 (opts plain)
         (FSHandle 0, Some (CleanupId 0), None),
       CallGet ''s'' False (CallerId 0, None),
       CallCopyFileWriter (CallerId 0) (WriterId 0, None),
       CallOneOff ''sending tarball'',
       CallWriteTar (FSHandle 0) (WriterId 0) (Some (ErrExternal ''write'')),
       CallClose (WriterId 0) (Some (ErrExternal ''close'')),
       CallReport (Some (ErrExternal ''write'')) (Some (ErrExternal ''write'')),
       CallCancel, CallCleanup (CleanupId 0)] =
      pre @ [CallCopyFileWriter (CallerId 0) (WriterId 0, None),
             CallOneOff ''sending tarball'', CallWriteTar fs (WriterId 0) werr,
             CallClose (WriterId 0) cerr,
             CallReport (case werr of Some err \<Rightarrow> Some err | None \<Rightarrow> cerr)
               (Some (ErrExternal ''write'')),
             CallCancel] @ map CallCleanup cleanups)"
proof -
  let ?tr = "[CallCreateFS ''s'' [] (RefId 7) [] [] 1700000000000000000 (opts plain)
         (FSHandle 0, Some (CleanupId 0), None),
       CallGet ''s'' False (CallerId 0, None),
       CallCopyFileWriter (CallerId 0) (WriterId 0, None),
       CallOneOff ''sending tarball'',
       CallWriteTar (FSHandle 0) (WriterId 0) (Some (ErrExternal ''write'')),
       CallClose (WriterId 0) (Some (ErrExternal ''close'')),
       CallReport (Some (ErrExternal ''write'')) (Some (ErrExternal ''write'')),
       CallCancel, CallCleanup (CleanupId 0)]"
  have e: "Export broken plain single ''s'' = (Some (ErrExternal ''write''), plain, ?tr)"
    by (simp add: stage_defs demo_defs broken_def Truncate_Second_def)
  have m: "CallCopyFileWriter (CallerId 0) (WriterId 0, None) \<in> set ?tr" by simp
  from sink_closed_and_error_surfaced[OF e m] e show ?thesis by blast
qed

text \<open>
  C8, as amended. The directory \<^verbatim>\<open>getDir\<close> returns carries the epoch option's
  \<^verbatim>\<open>UnixNano\<close> as its modification time when the option is set at the time of the
  call, and the zero value otherwise: the truncated current time is handed to
  \<^verbatim>\<open>CreateFS\<close> and is not written to the stat entry.
\<close>

theorem getDir_ModTime:
  "getDir c sessionID inp now k ref attestations s = (Inr d, s') \<Longrightarrow>
   ModTime (Stat d) = (case Epoch (opts (inst s)) of Some tm \<Rightarrow> UnixNano tm | None \<Rightarrow> 0)"
  by (auto simp: getDir_def log_def Let_def split: prod.splits option.splits)

theorem getDir_ModTime_witness:
  "getDir demo ''s'' single (Truncate_Second (Now demo)) ''a/b'' (RefId 7) [] (start stamped) =
     (Inr \<lparr>FS = FSHandle 0,
           Stat = \<lparr>Mode = dirMode, Path = ''a_b'', ModTime = 86400000000000\<rparr>\<rparr>,
      \<lparr>inst = stamped, defers = [CleanupId 0],
       trace = [createFSCall demo ''s'' single (Truncate_Second (Now demo)) ''a/b'' (RefId 7) []
                  (start stamped)]\<rparr>) \<and>
   ModTime (Stat \<lparr>FS = FSHandle 0,
                  Stat = \<lparr>Mode = dirMode, Path = ''a_b'', ModTime = 86400000000000\<rparr>\<rparr>) =
     (case Epoch (opts (inst (start stamped))) of Some tm \<Rightarrow> UnixNano tm | None \<Rightarrow> 0)"
proof -
  have g: "getDir demo ''s'' single (Truncate_Second (Now demo)) ''a/b'' (RefId 7) []
             (start stamped) =
     (Inr \<lparr>FS = FSHandle 0,
           Stat = \<lparr>Mode = dirMode, Path = ''a_b'', ModTime = 86400000000000\<rparr>\<rparr>,
      \<lparr>inst = stamped, defers = [CleanupId 0],
       trace = [createFSCall demo ''s'' single (Truncate_Second (Now demo)) ''a/b'' (RefId 7) []
                  (start stamped)]\<rparr>)"
    by (simp add: getDir_def log_def Let_def demo_defs createFSCall_def sanitize_def UnixNano_def)
  from getDir_ModTime[OF g] g show ?thesis by simp
qed

text \<open>The claim as stated fails: without an epoch the modification time is 0, not the
  truncated current time.\<close>

theorem getDir_ModTime_not_now:
  "Epoch (opts (inst (start plain))) = None \<and>
   fst (getDir demo ''s'' single (Truncate_Second (Now demo)) [] (RefId 7) [] (start plain)) =
     Inr \<lparr>FS = FSHandle 0, Stat = \<lparr>Mode = dirMode, Path = [], ModTime = 0\<rparr>\<rparr> \<and>
   Truncate_Second (Now demo) = 1700000000000000000 \<and>
   UnixNano (Truncate_Second (Now demo)) \<noteq> 0"
  by (simp add: getDir_def log_def Let_def demo_defs sanitize_def Truncate_Second_def
      UnixNano_def)

text \<open>
  C9, as amended. \<^verbatim>\<open>Export\<close> leaves \<^verbatim>\<open>preferNonDist\<close>, the attestation
  prefix and the multi-platform option of its receiver as they were. The epoch option is
  left as it was when it was set before the call; when it was unset, it is what
  \<^verbatim>\<open>epoch.ParseSource\<close> found in the source (when that returned no error and
  reported an epoch), and it stays unset otherwise.
\<close>

theorem Export_instance_after:
  "preferNonDist (fst (snd (Export c e inp sid))) = preferNonDist e \<and>
   AttestationPrefix (opts (fst (snd (Export c e inp sid)))) = AttestationPrefix (opts e) \<and>
   MultiPlatform (opts (fst (snd (Export c e inp sid)))) = MultiPlatform (opts e) \<and>
   Epoch (opts (fst (snd (Export c e inp sid)))) =
     (case Epoch (opts e) of
        Some t \<Rightarrow> Some t
      | None \<Rightarrow> (case ParseSource c inp of (tm, ok, err) \<Rightarrow> if err = None \<and> ok then tm else None))"
proof -
  obtain r e' where se: "sourceEpoch c inp e = (r, e')" by (cases "sourceEpoch c inp e")
  have "Epoch (opts e') = (case Epoch (opts e) of
        Some t \<Rightarrow> Some t
      | None \<Rightarrow> (case ParseSource c inp of (tm, ok, err) \<Rightarrow> if err = None \<and> ok then tm else None))"
    using se by (auto simp: sourceEpoch_def split: if_splits prod.splits option.splits)
  with sourceEpoch_keeps[OF se] se show ?thesis by (simp add: Export_inst)
qed

text \<open>The claim as stated fails: an instance without an epoch, after exporting a
  source that carries one, holds that epoch, and its next run hands to
  \<^verbatim>\<open>CreateFS\<close> options that a run on the instance as first configured does
  not.\<close>

theorem Export_sets_Epoch:
  "Epoch (opts plain) = None \<and>
   Export demo plain dated ''s'' =
     (None, plain\<lparr>opts := (opts plain)\<lparr>Epoch := Some 42000000000\<rparr>\<rparr>,
      [CallCreateFS ''s'' [] (RefId 7) [] [] 1700000000000000000
         ((opts plain)\<lparr>Epoch := Some 42000000000\<rparr>) (FSHandle 0, Some (CleanupId 0), None),
       CallGet ''s'' False (CallerId 0, None),
       CallCopyFileWriter (CallerId 0) (WriterId 0, None),
       CallOneOff ''sending tarball'',
       CallWriteTar (FSHandle 0) (WriterId 0) None,
       CallClose (WriterId 0) None, CallReport None None, CallCancel,
       CallCleanup (CleanupId 0)]) \<and>
   hd (snd (snd (Export demo plain single ''s''))) =
     CallCreateFS ''s'' [] (RefId 7) [] [] 1700000000000000000 (opts plain)
       (FSHandle 0, Some (CleanupId 0), None) \<and>
   hd (snd (snd (Export demo (fst (snd (Export demo plain dated ''s''))) single ''s''))) =
     CallCreateFS ''s'' [] (RefId 7) [] [] 1700000000000000000
       ((opts plain)\<lparr>Epoch := Some 42000000000\<rparr>) (FSHandle 0, Some (CleanupId 0), None)"
  by (simp add: stage_defs demo_defs Truncate_Second_def)

text \<open>
  C10. The code does not keep the claim. With mapped refs, a platforms entry that is
  present and empty and the option switching map mode off, the checks pass, the loop of
  lines 164-178 runs over no platform (\<open>compose_no_platforms\<close>, for any collaborators),
  line 179 skips \<^verbatim>\<open>SubDirFS\<close>, and the nil filesystem of line 160 is what
  \<^verbatim>\<open>WriteTar\<close> receives, no directory having been materialized.
\<close>

theorem nil_filesystem_written:
  "Refs (mapped []) \<noteq> [] \<and>
   map_of (Metadata (mapped [])) (ExporterPlatformsKey demo) = Some [] \<and>
   resolve demo (opts flat) (mapped []) = Inr (False, \<lparr>Platforms = []\<rparr>) \<and>
   compose demo ''s'' (mapped []) (Truncate_Second (Now demo)) False \<lparr>Platforms = []\<rparr>
     (start flat) = (Inr NilFS, start flat) \<and>
   Export demo flat (mapped []) ''s'' =
     (None, flat,
      [CallGet ''s'' False (CallerId 0, None),
       CallCopyFileWriter (CallerId 0) (WriterId 0, None),
       CallOneOff ''sending tarball'',
       CallWriteTar NilFS (WriterId 0) None,
       CallClose (WriterId 0) None, CallReport None None, CallCancel])"
  by (simp add: stage_defs demo_defs)

end
